theory Spec2Isabelle
  imports Complex_Main
begin

section \<open>Feed listener: \<^verbatim>\<open>ingestion/producer_binance.py\<close>\<close>

subsection \<open>Python values\<close>

text \<open>
  A payload decoded by \<^verbatim>\<open>json.loads\<close> is a Python value of one of these shapes. A dict is
  kept as its list of items (the first binding of a key is the dict's value for it). Strings
  are ASCII; a finite float is idealised as a real. A float that is not finite is an
  infinity of either sign (decoded from a literal such as \<^verbatim>\<open>1e400\<close> or \<^verbatim>\<open>Infinity\<close>) or
  not a number (\<^verbatim>\<open>NaN\<close>).
\<close>

datatype json =
    JNull
  | JBool bool
  | JInt int
  | JFloat real
  | JInfinity
  | JNaN
  | JStr string
  | JList "json list"
  | JObj "(string \<times> json) list"

datatype exc =
    JSONDecodeError | RecursionError | AttributeError | ValueError | TypeError
  | OverflowError | BufferError | KafkaException

text \<open>
  Library functions the module calls and does not define: \<^verbatim>\<open>json.loads\<close>, which returns
  the decoded value or raises (\<^verbatim>\<open>JSONDecodeError\<close> on text that is not JSON, but also
  \<^verbatim>\<open>RecursionError\<close> on deep nesting or \<^verbatim>\<open>ValueError\<close> on an oversized number),
  \<^verbatim>\<open>int\<close> on a \<^verbatim>\<open>str\<close> (\<open>None\<close> when it raises \<^verbatim>\<open>ValueError\<close>) and \<^verbatim>\<open>str\<close> on a float,
  list or dict.
\<close>

record py_env =
  json_loads :: "string \<Rightarrow> exc + json"
  str_to_int :: "string \<Rightarrow> int option"
  repr :: "json \<Rightarrow> string"

text \<open>Truth value testing, as \<^verbatim>\<open>or\<close>, \<^verbatim>\<open>not\<close> and the conditional expression apply it.\<close>

fun truthy :: "json \<Rightarrow> bool" where
  "truthy JNull = False"
| "truthy (JBool b) = b"
| "truthy (JInt n) = (n \<noteq> 0)"
| "truthy (JFloat r) = (r \<noteq> 0)"
| "truthy JInfinity = True"
| "truthy JNaN = True"
| "truthy (JStr s) = (s \<noteq> [])"
| "truthy (JList xs) = (xs \<noteq> [])"
| "truthy (JObj kvs) = (kvs \<noteq> [])"

text \<open>\<^verbatim>\<open>d.get(k, default)\<close> on a dict's items.\<close>

definition dict_get :: "(string \<times> json) list \<Rightarrow> string \<Rightarrow> json \<Rightarrow> json" where
  "dict_get kvs k d = (case map_of kvs k of None \<Rightarrow> d | Some v \<Rightarrow> v)"

text \<open>\<^verbatim>\<open>x.get(k)\<close> on any value: only a dict has the attribute.\<close>

fun py_get :: "json \<Rightarrow> string \<Rightarrow> exc + json" where
  "py_get (JObj kvs) k = Inr (dict_get kvs k JNull)"
| "py_get _ k = Inl AttributeError"

text \<open>
  \<^verbatim>\<open>int(x)\<close>: a finite float is truncated towards zero, an infinity raises
  \<^verbatim>\<open>OverflowError\<close> and a NaN \<^verbatim>\<open>ValueError\<close>; a bool is 0 or 1.
\<close>

fun py_int :: "py_env \<Rightarrow> json \<Rightarrow> exc + int" where
  "py_int py (JInt n) = Inr n"
| "py_int py (JBool b) = Inr (if b then 1 else 0)"
| "py_int py (JFloat r) = Inr (if 0 \<le> r then \<lfloor>r\<rfloor> else \<lceil>r\<rceil>)"
| "py_int py JInfinity = Inl OverflowError"
| "py_int py JNaN = Inl ValueError"
| "py_int py (JStr s) = (case str_to_int py s of None \<Rightarrow> Inl ValueError | Some n \<Rightarrow> Inr n)"
| "py_int py JNull = Inl TypeError"
| "py_int py (JList xs) = Inl TypeError"
| "py_int py (JObj kvs) = Inl TypeError"

function str_of_nat :: "nat \<Rightarrow> string" where
  "str_of_nat n =
     (if n < 10 then [''0123456789'' ! n]
      else str_of_nat (n div 10) @ [''0123456789'' ! (n mod 10)])"
  by pat_completeness auto
termination
  by (relation "measure id") auto

declare str_of_nat.simps [simp del]

definition str_of_int :: "int \<Rightarrow> string" where
  "str_of_int i = (if i < 0 then CHR ''-'' # str_of_nat (nat (- i)) else str_of_nat (nat i))"

text \<open>\<^verbatim>\<open>str(x)\<close>.\<close>

fun py_str :: "py_env \<Rightarrow> json \<Rightarrow> string" where
  "py_str py (JStr s) = s"
| "py_str py (JInt n) = str_of_int n"
| "py_str py (JBool b) = (if b then ''True'' else ''False'')"
| "py_str py JNull = ''None''"
| "py_str py v = repr py v"

text \<open>\<^verbatim>\<open>s.upper()\<close> on an ASCII string.\<close>

definition upper_char :: "char \<Rightarrow> char" where
  "upper_char c =
     (let n = (of_char c :: nat) in if 97 \<le> n \<and> n \<le> 122 then char_of (n - 32) else c)"

definition upper :: "string \<Rightarrow> string" where
  "upper s = map upper_char s"

fun py_upper :: "json \<Rightarrow> exc + string" where
  "py_upper (JStr s) = Inr (upper s)"
| "py_upper _ = Inl AttributeError"

subsection \<open>Trade formatting\<close>

definition EXCHANGE :: string where
  "EXCHANGE = ''binance''"

text \<open>
  The eight fields of the trade record wire format. The producer copies \<^verbatim>\<open>price\<close> and
  \<^verbatim>\<open>qty\<close> from the payload as they are, so there they are any decoded value; the source
  table of the detection job declares them \<^verbatim>\<open>STRING\<close>.
\<close>

record 'v trade_record =
  ts :: int
  ingest_ts :: int
  exchange :: string
  symbol :: string
  trade_id :: string
  side :: string
  price :: 'v
  qty :: 'v

text \<open>
  \<^verbatim>\<open>_format_trade\<close>. \<open>now\<close> is the value of \<^verbatim>\<open>int(time.time() * 1000)\<close> at the call. The
  conversions are evaluated in the order of the source: \<^verbatim>\<open>int(...)\<close> for \<^verbatim>\<open>ts\<close> first, then
  \<^verbatim>\<open>.upper()\<close> for the symbol; either can raise.
\<close>

definition format_trade :: "py_env \<Rightarrow> int \<Rightarrow> (string \<times> json) list \<Rightarrow> exc + json trade_record" where
  "format_trade py now trade =
     (let ingest = now;
          t = dict_get trade ''T'' JNull;
          e = dict_get trade ''E'' JNull
      in case py_int py (if truthy t then t else if truthy e then e else JInt ingest) of
           Inl x \<Rightarrow> Inl x
         | Inr tsv \<Rightarrow>
             (let sd = (if truthy (dict_get trade ''m'' JNull) then ''sell'' else ''buy'')
              in case py_upper (dict_get trade ''s'' (JStr '''')) of
                   Inl x \<Rightarrow> Inl x
                 | Inr smb \<Rightarrow>
                     Inr \<lparr> ts = tsv,
                           ingest_ts = ingest,
                           exchange = EXCHANGE,
                           symbol = smb,
                           trade_id =
                             py_str py (dict_get trade ''t'' (dict_get trade ''a'' (JInt ingest))),
                           side = sd,
                           price = dict_get trade ''p'' (JStr ''0''),
                           qty = dict_get trade ''q'' (JStr ''0'') \<rparr>))"

subsection \<open>The producer object and its callbacks\<close>

datatype level = DEBUG | INFO | WARNING | ERROR

text \<open>
  What the producer does to the outside world, in order: a log line (level and format
  string), \<^verbatim>\<open>time.sleep\<close>, \<^verbatim>\<open>ws_app.close()\<close>, and the Kafka client's \<^verbatim>\<open>produce\<close>
  (topic, key, the record whose JSON text is the value), \<^verbatim>\<open>poll\<close> and \<^verbatim>\<open>flush\<close>.
\<close>

datatype effect =
    Log level string
  | Sleep int
  | WsClose
  | KafkaProduce string string "json trade_record"
  | KafkaPoll int
  | KafkaFlush int

text \<open>
  The fields of \<^verbatim>\<open>BinanceTradeProducer\<close> the methods read or write. \<open>ws_app\<close> says whether
  the attribute holds a \<^verbatim>\<open>WebSocketApp\<close> (an object that is always true) or \<^verbatim>\<open>None\<close>;
  \<open>trace\<close> collects the effects.
\<close>

record producer =
  symbols :: "string list"
  topic :: string
  ws_app :: bool
  stop_event :: bool
  stream_url :: string
  backoff_seconds :: int
  trace :: "effect list"

definition new_producer :: "string list \<Rightarrow> string \<Rightarrow> string \<Rightarrow> producer" where
  "new_producer syms tp url =
     \<lparr> symbols = syms, topic = tp, ws_app = False, stop_event = False,
       stream_url = url, backoff_seconds = 1, trace = [] \<rparr>"

definition emit :: "effect list \<Rightarrow> producer \<Rightarrow> producer" where
  "emit es p = p\<lparr>trace := trace p @ es\<rparr>"

text \<open>\<^verbatim>\<open>stop\<close>: an exception of \<^verbatim>\<open>ws_app.close()\<close> is swallowed, so the call is all that shows.\<close>

definition stop :: "producer \<Rightarrow> producer" where
  "stop p =
     (if stop_event p then p
      else
        (let p1 = (emit [Log INFO ''Stopping Binance producer ...''] p)\<lparr>stop_event := True\<rparr>;
             p2 = (if ws_app p1 then emit [WsClose] p1 else p1)
         in emit [KafkaFlush 10] p2))"

definition on_open :: "producer \<Rightarrow> producer" where
  "on_open p = (emit [Log INFO ''Connected to Binance stream (%s) for %s''] p)\<lparr>backoff_seconds := 1\<rparr>"

definition on_close :: "producer \<Rightarrow> producer" where
  "on_close p = emit [Log WARNING ''Binance stream closed.''] p"

definition on_error :: "producer \<Rightarrow> producer" where
  "on_error p = (if \<not> stop_event p then emit [Log ERROR ''WebSocket error: %s''] p else p)"

text \<open>
  \<^verbatim>\<open>trade = payload.get("data") or payload\<close>: the combined stream wraps each event in an
  object with a \<^verbatim>\<open>data\<close> member, a single stream sends the event itself.
\<close>

definition unwrap :: "json \<Rightarrow> exc + json" where
  "unwrap payload =
     (case py_get payload ''data'' of
        Inl x \<Rightarrow> Inl x
      | Inr d \<Rightarrow> Inr (if truthy d then d else payload))"

text \<open>
  The statements of the \<^verbatim>\<open>try\<close> block of \<^verbatim>\<open>_on_message\<close> that follow \<^verbatim>\<open>json.loads\<close>.
  \<open>refusal\<close> is the exception with which \<^verbatim>\<open>produce\<close> would refuse a record at this
  moment (\<^verbatim>\<open>BufferError\<close> when the client's queue of \<^verbatim>\<open>queue.buffering.max.messages\<close> is
  full), \<open>None\<close> when it accepts.
\<close>

definition process_payload :: "py_env \<Rightarrow> int \<Rightarrow> exc option \<Rightarrow> producer \<Rightarrow> json \<Rightarrow> exc + producer" where
  "process_payload py now refusal p payload =
     (case unwrap payload of
        Inl x \<Rightarrow> Inl x
      | Inr trade \<Rightarrow>
          (if \<not> truthy trade then Inr p
           else (case py_get trade ''e'' of
                   Inl x \<Rightarrow> Inl x
                 | Inr ev \<Rightarrow>
                     (if ev \<noteq> JStr ''trade'' then Inr p
                      else (case trade of
                              JObj kvs \<Rightarrow>
                                (case format_trade py now kvs of
                                   Inl x \<Rightarrow> Inl x
                                 | Inr record \<Rightarrow>
                                     (case refusal of
                                        Some x \<Rightarrow> Inl x
                                      | None \<Rightarrow>
                                          Inr (emit [KafkaProduce (topic p) (symbol record) record,
                                                     KafkaPoll 0] p)))
                            | _ \<Rightarrow> Inl AttributeError)))))"

text \<open>The whole \<^verbatim>\<open>try\<close> block: \<^verbatim>\<open>json.loads\<close>, then the statements above.\<close>

definition try_block :: "py_env \<Rightarrow> int \<Rightarrow> exc option \<Rightarrow> producer \<Rightarrow> string \<Rightarrow> exc + producer" where
  "try_block py now refusal p message =
     (case json_loads py message of
        Inl x \<Rightarrow> Inl x
      | Inr payload \<Rightarrow> process_payload py now refusal p payload)"

text \<open>
  \<^verbatim>\<open>_on_message\<close>: \<^verbatim>\<open>except json.JSONDecodeError\<close> logs a warning, \<^verbatim>\<open>except Exception\<close>
  logs every other exception as an error, so nothing is raised to the caller.
\<close>

definition on_message :: "py_env \<Rightarrow> int \<Rightarrow> exc option \<Rightarrow> producer \<Rightarrow> string \<Rightarrow> producer" where
  "on_message py now refusal p message =
     (case try_block py now refusal p message of
        Inl x \<Rightarrow>
          (if x = JSONDecodeError then emit [Log WARNING ''Invalid JSON payload: %s''] p
           else emit [Log ERROR ''Failed to process trade: %s''] p)
      | Inr p' \<Rightarrow> p')"

subsection \<open>The reconnect loop\<close>

text \<open>
  What can happen while \<^verbatim>\<open>run_forever\<close> blocks: the library calls one of the four
  callbacks, or a signal arrives and its handler calls \<^verbatim>\<open>stop\<close>. A message comes with the
  clock reading and the answer of \<^verbatim>\<open>produce\<close> its handler will see.
\<close>

datatype ws_event = Open | Message int "exc option" string | Error | Close | Signal

fun dispatch :: "py_env \<Rightarrow> producer \<Rightarrow> ws_event \<Rightarrow> producer" where
  "dispatch py p Open = on_open p"
| "dispatch py p (Message now refusal m) = on_message py now refusal p m"
| "dispatch py p Error = on_error p"
| "dispatch py p Close = on_close p"
| "dispatch py p Signal = stop p"

definition run_forever :: "py_env \<Rightarrow> producer \<Rightarrow> ws_event list \<Rightarrow> producer" where
  "run_forever py p evs = foldl (dispatch py) p evs"

text \<open>
  \<^verbatim>\<open>start\<close>. Each element of the list is what happens during one call of
  \<^verbatim>\<open>run_forever\<close>; the loop runs for as long as the environment supplies connections, so
  the result is the producer at the point where the list ends or the loop exits.
\<close>

fun start :: "py_env \<Rightarrow> producer \<Rightarrow> ws_event list list \<Rightarrow> producer" where
  "start py p [] = p"
| "start py p (evs # rest) =
     (if stop_event p then emit [Log INFO ''Producer loop exited''] p
      else
        (let p1 = run_forever py (p\<lparr>ws_app := True\<rparr>) evs in
         if stop_event p1 then emit [Log INFO ''Producer loop exited''] p1
         else start py
                ((emit [Log WARNING ''WebSocket disconnected, retrying in %s seconds'',
                        Sleep (backoff_seconds p1)] p1)
                   \<lparr>backoff_seconds := min (backoff_seconds p1 * 2) 60\<rparr>)
                rest))"

text \<open>The delays the loop has slept, oldest first.\<close>

fun sleeps :: "effect list \<Rightarrow> int list" where
  "sleeps [] = []"
| "sleeps (Sleep n # es) = n # sleeps es"
| "sleeps (_ # es) = sleeps es"

text \<open>The records handed to \<^verbatim>\<open>produce\<close>, oldest first.\<close>

fun produced :: "effect list \<Rightarrow> json trade_record list" where
  "produced [] = []"
| "produced (KafkaProduce tp k r # es) = r # produced es"
| "produced (_ # es) = produced es"

section \<open>Detection job: \<^verbatim>\<open>flink-jobs/anomaly_detector.py\<close>\<close>

text \<open>
  The job is the three SQL statements of \<^verbatim>\<open>main\<close>: the source table \<^verbatim>\<open>trades_raw\<close> with its
  watermark, the view \<^verbatim>\<open>windowed_trades\<close> over it, and the insertion of the view's rows
  above the threshold into \<^verbatim>\<open>alerts\<close>. The statements are executed by a stream runtime: it
  decides which rows of \<^verbatim>\<open>trades_raw\<close> a window still admits and when a row of the view is
  emitted (see the windowing engine below); what the statements themselves fix is the shape
  of a row of the view, the rule that selects alerts and the select list that builds them.
  A \<^verbatim>\<open>DOUBLE\<close> is idealised as a real number.

  The built-in functions the statements call are parameters: the reading of a JSON value
  of the topic through a \<^verbatim>\<open>STRING\<close> column and \<^verbatim>\<open>CAST(... AS DOUBLE)\<close> (\<open>None\<close> when the cast
  fails), \<^verbatim>\<open>CAST(d AS STRING)\<close> on a double, \<^verbatim>\<open>CAST(t AS STRING)\<close> on a timestamp (given as
  its milliseconds since the epoch) and \<^verbatim>\<open>UNIX_TIMESTAMP\<close> (seconds since the epoch).
\<close>

record sql_env =
  read_double :: "json \<Rightarrow> real option"
  double_to_string :: "real \<Rightarrow> string"
  timestamp_to_string :: "int \<Rightarrow> string"
  unix_timestamp :: "string \<Rightarrow> int"

text \<open>
  A record of the topic as the view reads it: the columns of \<^verbatim>\<open>trades_raw\<close> with
  \<^verbatim>\<open>CAST(price AS DOUBLE)\<close> and \<^verbatim>\<open>CAST(qty AS DOUBLE)\<close> applied.
\<close>

definition as_trade :: "sql_env \<Rightarrow> json trade_record \<Rightarrow> real trade_record option" where
  "as_trade env r =
     (case read_double env (price r) of
        None \<Rightarrow> None
      | Some p \<Rightarrow>
          (case read_double env (qty r) of
             None \<Rightarrow> None
           | Some q \<Rightarrow>
               Some \<lparr> ts = ts r, ingest_ts = ingest_ts r, exchange = exchange r,
                      symbol = symbol r, trade_id = trade_id r, side = side r,
                      price = p, qty = q \<rparr>))"

text \<open>
  A row of the view \<^verbatim>\<open>windowed_trades\<close>: \<^verbatim>\<open>TUMBLE_END\<close> of the window in milliseconds,
  the two grouping columns, \<^verbatim>\<open>SUM(CAST(qty AS DOUBLE))\<close> and \<^verbatim>\<open>AVG(CAST(price AS DOUBLE))\<close>.
\<close>

record windowed_row =
  window_end :: int
  win_symbol :: string
  win_exchange :: string
  volume :: real
  avg_price :: real

record alert =
  alert_ts :: int
  alert_symbol :: string
  alert_exchange :: string
  signal :: string
  alert_volume :: string
  alert_avg_price :: string

text \<open>\<^verbatim>\<open>INSERT INTO alerts SELECT ... FROM windowed_trades WHERE volume > 1.0\<close>.\<close>

definition select_alert :: "sql_env \<Rightarrow> windowed_row \<Rightarrow> alert" where
  "select_alert env w =
     \<lparr> alert_ts = unix_timestamp env (timestamp_to_string env (window_end w)) * 1000,
       alert_symbol = win_symbol w,
       alert_exchange = win_exchange w,
       signal = ''volume_spike'',
       alert_volume = double_to_string env (volume w),
       alert_avg_price = double_to_string env (avg_price w) \<rparr>"

definition insert_alerts :: "sql_env \<Rightarrow> windowed_row list \<Rightarrow> alert list" where
  "insert_alerts env ws = map (select_alert env) (filter (\<lambda>w. volume w > 1.0) ws)"

section \<open>Windowing engine\<close>

text \<open>
  The job hands the view to a stream runtime: which trades are still admitted to a window,
  when a window is closed and when its result is emitted are decided there, and \<^verbatim>\<open>src/\<close>
  holds only the two declarations that configure it, the watermark of \<^verbatim>\<open>trades_raw\<close>
  (\<^verbatim>\<open>rowtime - INTERVAL '5' SECOND\<close>) and the tumbling window of ten seconds. The engine
  below is therefore written from section 4.3 of the specification, with these two
  constants. Its input is a trade record with numeric price and quantity (the
  specification's decimals, added exactly); its output, the WindowResult, has the fields
  of a row of the view.
\<close>

text \<open>Modelled from the spec: the window size (default 10 s), which the runtime is given.\<close>

definition windowSizeMs :: int where
  "windowSizeMs = 10000"

text \<open>Modelled from the spec: the allowed lateness (default 5 s), which the runtime is given.\<close>

definition allowedLateness :: int where
  "allowedLateness = 5000"

text \<open>
  Modelled from the spec: the runtime's window assignment,
  \<^verbatim>\<open>windowStart = floor(eventTime / windowSizeMs) * windowSizeMs\<close>.
\<close>

definition windowStart :: "int \<Rightarrow> int" where
  "windowStart t = (t div windowSizeMs) * windowSizeMs"

text \<open>
  Modelled from the spec: the runtime's per-window state, the WindowAccumulator with
  \<^verbatim>\<open>count\<close>, \<^verbatim>\<open>sumQty\<close> and \<^verbatim>\<open>sumPrice\<close>.
\<close>

record accumulator =
  count :: nat
  sumQty :: real
  sumPrice :: real

text \<open>
  Modelled from the spec: the runtime's state for one (exchange, symbol): the open
  accumulators by \<^verbatim>\<open>windowStart\<close>, \<^verbatim>\<open>maxObservedEventTime\<close> and \<^verbatim>\<open>closedBoundary\<close> (both
  absent until first set) and the late-dropped counter.
\<close>

record key_state =
  accumulators :: "(int \<times> accumulator) list"
  maxObservedEventTime :: "int option"
  closedBoundary :: "int option"
  lateDropped :: nat

text \<open>Modelled from the spec: the runtime's state for a key that has seen no trade.\<close>

definition empty_key :: key_state where
  "empty_key = \<lparr> accumulators = [], maxObservedEventTime = None, closedBoundary = None,
                 lateDropped = 0 \<rparr>"

text \<open>
  Modelled from the spec: step 1 of the runtime's ingestion, look up or create the
  accumulator of the window and update
  \<^verbatim>\<open>count += 1; sumQty += qty; sumPrice += price\<close>.
\<close>

fun accumulate :: "int \<Rightarrow> real \<Rightarrow> real \<Rightarrow> (int \<times> accumulator) list \<Rightarrow> (int \<times> accumulator) list" where
  "accumulate w q p [] = [(w, \<lparr> count = 1, sumQty = q, sumPrice = p \<rparr>)]"
| "accumulate w q p ((w', a) # rest) =
     (if w' = w
      then (w', a\<lparr> count := count a + 1, sumQty := sumQty a + q, sumPrice := sumPrice a + p \<rparr>) # rest
      else (w', a) # accumulate w q p rest)"

text \<open>Modelled from the spec: \<^verbatim>\<open>max(previous, t)\<close> of steps 2 and 3, where there may be no previous value.\<close>

definition max_opt :: "int option \<Rightarrow> int \<Rightarrow> int" where
  "max_opt previous t = (case previous of None \<Rightarrow> t | Some m \<Rightarrow> max m t)"

text \<open>
  Modelled from the spec: the WindowResult snapshot of a closed accumulator,
  \<^verbatim>\<open>volume = sumQty\<close> and \<^verbatim>\<open>avgPrice = sumPrice / count\<close>.
\<close>

definition snapshot :: "string \<times> string \<Rightarrow> int \<times> accumulator \<Rightarrow> windowed_row" where
  "snapshot k wa =
     \<lparr> window_end = fst wa + windowSizeMs,
       win_symbol = snd k,
       win_exchange = fst k,
       volume = sumQty (snd wa),
       avg_price = sumPrice (snd wa) / real (count (snd wa)) \<rparr>"

text \<open>
  Modelled from the spec: what the runtime does on receiving a trade for the key
  \<open>k = (exchange, symbol)\<close>, steps 1 to 3 of section 4.3 in order. Step 1 drops the trade
  and counts it when its window starts before \<^verbatim>\<open>closedBoundary\<close>, and accumulates it
  otherwise. Step 2 raises \<^verbatim>\<open>maxObservedEventTime\<close> and recomputes the watermark. Step 3
  closes every open accumulator whose \<^verbatim>\<open>windowEnd\<close> is at or before the watermark: the
  results are emitted in ascending order of \<^verbatim>\<open>windowEnd\<close>, the accumulators evicted and
  \<^verbatim>\<open>closedBoundary\<close> advanced.
\<close>

definition ingest :: "string \<times> string \<Rightarrow> key_state \<Rightarrow> real trade_record \<Rightarrow> key_state \<times> windowed_row list" where
  "ingest k s t =
     (let w = windowStart (ts t);
          late = (case closedBoundary s of None \<Rightarrow> False | Some cb \<Rightarrow> w < cb);
          s1 = (if late then s\<lparr> lateDropped := lateDropped s + 1 \<rparr>
                else s\<lparr> accumulators := accumulate w (qty t) (price t) (accumulators s) \<rparr>);
          m = max_opt (maxObservedEventTime s1) (ts t);
          watermark = m - allowedLateness;
          closing = sort_key fst
                      (filter (\<lambda>wa. fst wa + windowSizeMs \<le> watermark) (accumulators s1));
          s3 = s1\<lparr> accumulators :=
                     filter (\<lambda>wa. \<not> fst wa + windowSizeMs \<le> watermark) (accumulators s1),
                   maxObservedEventTime := Some m,
                   closedBoundary :=
                     foldl (\<lambda>cb wa. Some (max_opt cb (fst wa + windowSizeMs)))
                       (closedBoundary s1) closing \<rparr>
      in (s3, map (snapshot k) closing))"

text \<open>
  Modelled from the spec: the runtime's state, partitioned by (exchange, symbol); a
  trade touches the state of its own key only.
\<close>

type_synonym engine = "string \<times> string \<Rightarrow> key_state"

text \<open>Modelled from the spec: the runtime's state at the start of a run.\<close>

definition empty_engine :: engine where
  "empty_engine = (\<lambda>k. empty_key)"

text \<open>
  Modelled from the spec: the runtime hands a trade to the state of its own
  (exchange, symbol) and emits what that key emits.
\<close>

definition receive :: "engine \<Rightarrow> real trade_record \<Rightarrow> engine \<times> windowed_row list" where
  "receive st t =
     (let k = (exchange t, symbol t);
          r = ingest k (st k) t
      in (st(k := fst r), snd r))"

text \<open>
  Modelled from the spec: a run of the runtime over the trades in their order of arrival;
  the second component collects every WindowResult emitted, in order of emission.
\<close>

fun run :: "engine \<Rightarrow> real trade_record list \<Rightarrow> engine \<times> windowed_row list" where
  "run st [] = (st, [])"
| "run st (t # rest) =
     (let r = receive st t;
          r' = run (fst r) rest
      in (fst r', snd r @ snd r'))"

text \<open>
  Modelled from the spec: the WindowKey \<^verbatim>\<open>(exchange, symbol, windowStart)\<close> of a result, with
  \<^verbatim>\<open>windowEnd = windowStart + windowSizeMs\<close>.
\<close>

definition window_key :: "windowed_row \<Rightarrow> string \<times> string \<times> int" where
  "window_key r = (win_exchange r, win_symbol r, window_end r - windowSizeMs)"

text \<open>
  An invariant of the engine above, used in the proofs: between two trades the open
  windows of a key are distinct, start at multiples of the window size, are not yet due
  (their end is after the watermark) and start at or after the closed boundary; the closed
  boundary is a multiple of the window size at or before the watermark.
\<close>

definition key_inv :: "key_state \<Rightarrow> bool" where
  "key_inv s \<longleftrightarrow>
     distinct (map fst (accumulators s))
   \<and> (\<forall>wa\<in>set (accumulators s).
         fst wa mod windowSizeMs = 0
       \<and> (\<exists>m. maxObservedEventTime s = Some m \<and> m - allowedLateness < fst wa + windowSizeMs)
       \<and> (\<forall>cb. closedBoundary s = Some cb \<longrightarrow> cb \<le> fst wa))
   \<and> (\<forall>cb. closedBoundary s = Some cb \<longrightarrow>
         cb mod windowSizeMs = 0
       \<and> (\<exists>m. maxObservedEventTime s = Some m \<and> cb \<le> m - allowedLateness))"





section \<open>Properties of the feed listener\<close>

subsection \<open>Callbacks leave the loop's variables alone\<close>

lemma sleeps_append: "sleeps (xs @ ys) = sleeps xs @ sleeps ys"
  by (induction xs rule: sleeps.induct) simp_all

lemma process_payload_cases:
  "process_payload py now refusal p payload = Inr p' \<Longrightarrow>
     p' = p \<or> (\<exists>r. p' = emit [KafkaProduce (topic p) (symbol r) r, KafkaPoll 0] p)"
  unfolding process_payload_def
  by (auto split: sum.splits if_splits json.splits option.splits)

lemma on_message_cases:
  "on_message py now refusal p m = p \<or> (\<exists>es. on_message py now refusal p m = emit es p \<and> sleeps es = [])"
proof (cases "try_block py now refusal p m")
  case (Inl x)
  then show ?thesis by (auto simp: on_message_def)
next
  case (Inr p')
  then obtain payload where "process_payload py now refusal p payload = Inr p'"
    by (auto simp: try_block_def split: sum.splits)
  from process_payload_cases[OF this] Inr show ?thesis
    by (auto simp: on_message_def)
qed

lemma on_message_stop_event: "stop_event (on_message py now refusal p m) = stop_event p"
  using on_message_cases[of py now refusal p m] by (auto simp: emit_def)

lemma on_message_backoff: "backoff_seconds (on_message py now refusal p m) = backoff_seconds p"
  using on_message_cases[of py now refusal p m] by (auto simp: emit_def)

lemma on_message_sleeps: "sleeps (trace (on_message py now refusal p m)) = sleeps (trace p)"
  using on_message_cases[of py now refusal p m] by (auto simp: emit_def sleeps_append)

lemma dispatch_sleeps: "sleeps (trace (dispatch py p ev)) = sleeps (trace p)"
proof (cases ev)
  case (Message now refusal m)
  then show ?thesis by (simp add: on_message_sleeps)
qed (simp_all add: on_open_def on_close_def on_error_def stop_def emit_def sleeps_append Let_def)

lemma dispatch_stop_event: "Signal \<noteq> ev \<Longrightarrow> stop_event (dispatch py p ev) = stop_event p"
proof (cases ev)
  case (Message now refusal m)
  then show ?thesis by (simp add: on_message_stop_event)
qed (simp_all add: on_open_def on_close_def on_error_def emit_def)

lemma dispatch_backoff: "Open \<noteq> ev \<Longrightarrow> backoff_seconds (dispatch py p ev) = backoff_seconds p"
proof (cases ev)
  case (Message now refusal m)
  then show ?thesis by (simp add: on_message_backoff)
qed (simp_all add: on_close_def on_error_def stop_def emit_def Let_def)

lemma run_forever_Nil: "run_forever py p [] = p"
  by (simp add: run_forever_def)

lemma run_forever_Cons: "run_forever py p (ev # evs) = run_forever py (dispatch py p ev) evs"
  by (simp add: run_forever_def)

lemma run_forever_snoc: "run_forever py p (evs @ [ev]) = dispatch py (run_forever py p evs) ev"
  by (simp add: run_forever_def)

lemma run_forever_sleeps: "sleeps (trace (run_forever py p evs)) = sleeps (trace p)"
  by (induction evs arbitrary: p) (simp_all add: run_forever_Nil run_forever_Cons dispatch_sleeps)

lemma run_forever_stop_event:
  "Signal \<notin> set evs \<Longrightarrow> stop_event (run_forever py p evs) = stop_event p"
  by (induction evs arbitrary: p) (simp_all add: run_forever_Nil run_forever_Cons dispatch_stop_event)

lemma run_forever_backoff:
  "Open \<notin> set evs \<Longrightarrow> backoff_seconds (run_forever py p evs) = backoff_seconds p"
  by (induction evs arbitrary: p) (simp_all add: run_forever_Nil run_forever_Cons dispatch_backoff)

lemma run_forever_opened: "Open \<in> set evs \<Longrightarrow> backoff_seconds (run_forever py p evs) = 1"
proof (induction evs rule: rev_induct)
  case Nil
  then show ?case by simp
next
  case (snoc ev evs)
  show ?case
  proof (cases "ev = Open")
    case True
    then show ?thesis by (simp add: run_forever_snoc on_open_def emit_def)
  next
    case False
    with snoc.prems have "Open \<in> set evs" by simp
    moreover from False have "Open \<noteq> ev" by simp
    ultimately show ?thesis using snoc.IH
      by (simp add: run_forever_snoc dispatch_backoff)
  qed
qed

subsection \<open>Reconnect backoff\<close>

lemma start_retry:
  assumes "\<not> stop_event p" and "Signal \<notin> set evs"
  shows "start py p (evs # rest) =
           start py
             ((emit [Log WARNING ''WebSocket disconnected, retrying in %s seconds'',
                     Sleep (backoff_seconds (run_forever py (p\<lparr>ws_app := True\<rparr>) evs))]
                 (run_forever py (p\<lparr>ws_app := True\<rparr>) evs))
                \<lparr>backoff_seconds :=
                   min (backoff_seconds (run_forever py (p\<lparr>ws_app := True\<rparr>) evs) * 2) 60\<rparr>)
             rest"
  using assms by (simp add: Let_def run_forever_stop_event)

lemma doubling_capped:
  fixes b :: int
  assumes "1 \<le> b"
  shows "min (min (b * 2) 60 * 2 ^ k) 60 = min (b * 2 ^ Suc k) 60"
proof (cases "b * 2 \<le> 60")
  case True
  then show ?thesis by (simp add: mult.assoc)
next
  case False
  have k1: "(1::int) \<le> 2 ^ k" by simp
  from False have "60 \<le> b * 2" by simp
  with k1 have "60 * 1 \<le> (b * 2) * 2 ^ k"
    by (intro mult_mono) simp_all
  moreover from k1 have "(60::int) * 1 \<le> 60 * 2 ^ k"
    by (intro mult_mono) simp_all
  ultimately show ?thesis using False by (simp add: mult.assoc)
qed

lemma start_fails:
  assumes "\<not> stop_event p" and "1 \<le> backoff_seconds p" and "backoff_seconds p \<le> 60"
    and "\<forall>evs\<in>set fails. Open \<notin> set evs \<and> Signal \<notin> set evs"
  shows "sleeps (trace (start py p fails)) =
           sleeps (trace p) @ map (\<lambda>k. min (backoff_seconds p * 2 ^ k) 60) [0..<length fails]"
  using assms
proof (induction fails arbitrary: p)
  case Nil
  then show ?case by simp
next
  case (Cons evs fails)
  let ?p1 = "run_forever py (p\<lparr>ws_app := True\<rparr>) evs"
  let ?p' = "(emit [Log WARNING ''WebSocket disconnected, retrying in %s seconds'',
                    Sleep (backoff_seconds ?p1)] ?p1)
               \<lparr>backoff_seconds := min (backoff_seconds ?p1 * 2) 60\<rparr>"
  from Cons.prems have noev: "Open \<notin> set evs" "Signal \<notin> set evs" by simp_all
  have b1: "backoff_seconds ?p1 = backoff_seconds p"
    using noev by (simp add: run_forever_backoff)
  have st: "start py p (evs # fails) = start py ?p' fails"
    using Cons.prems(1) noev(2) by (rule start_retry)
  have ns: "\<not> stop_event ?p'"
    using Cons.prems(1) noev(2) by (simp add: emit_def run_forever_stop_event)
  have bb: "backoff_seconds ?p' = min (backoff_seconds p * 2) 60"
    by (simp add: b1)
  have tr: "sleeps (trace ?p') = sleeps (trace p) @ [backoff_seconds p]"
    by (simp add: emit_def sleeps_append run_forever_sleeps b1)
  have "sleeps (trace (start py ?p' fails)) =
          sleeps (trace ?p') @ map (\<lambda>k. min (backoff_seconds ?p' * 2 ^ k) 60) [0..<length fails]"
    using ns Cons.prems(2,3,4) by (intro Cons.IH) (simp_all add: b1)
  also have "\<dots> = sleeps (trace p) @ backoff_seconds p #
                 map (\<lambda>k. min (backoff_seconds p * 2 ^ Suc k) 60) [0..<length fails]"
    unfolding bb tr using doubling_capped[OF Cons.prems(2)] by simp
  also have "\<dots> = sleeps (trace p) @
                 map (\<lambda>k. min (backoff_seconds p * 2 ^ k) 60) [0..<length (evs # fails)]"
    using Cons.prems(3) by (simp add: map_upt_Suc del: upt_Suc)
  finally show ?case using st by simp
qed

lemma start_append:
  assumes "\<not> stop_event p" and "\<forall>evs\<in>set pre. Signal \<notin> set evs"
  shows "start py p (pre @ rest) = start py (start py p pre) rest \<and> \<not> stop_event (start py p pre)"
  using assms
proof (induction pre arbitrary: p)
  case Nil
  then show ?case by simp
next
  case (Cons evs pre)
  let ?p1 = "run_forever py (p\<lparr>ws_app := True\<rparr>) evs"
  let ?p' = "(emit [Log WARNING ''WebSocket disconnected, retrying in %s seconds'',
                    Sleep (backoff_seconds ?p1)] ?p1)
               \<lparr>backoff_seconds := min (backoff_seconds ?p1 * 2) 60\<rparr>"
  from Cons.prems have noev: "Signal \<notin> set evs" by simp
  have ns: "\<not> stop_event ?p'"
    using Cons.prems(1) noev by (simp add: emit_def run_forever_stop_event)
  have st: "start py p (evs # xs) = start py ?p' xs" for xs
    using Cons.prems(1) noev by (rule start_retry)
  from Cons.IH[OF ns] Cons.prems(2) show ?case
    using st[of "pre @ rest"] st[of pre] by simp
qed

text \<open>
  Claim C3. In a run of the reconnect loop from a fresh producer, with no stop signal: while
  every connection attempt fails (\<^verbatim>\<open>_on_open\<close> is never called), the delays slept are
  1, 2, 4, 8, 16, 32, 60, 60, ..., the \<open>k\<close>-th being \<open>min (2 ^ k) 60\<close>; and after
  any connection during which \<^verbatim>\<open>_on_open\<close> was called, whatever came before it, the
  delays of the failures that follow start again at 1.
\<close>

theorem reconnect_backoff_sequence:
  assumes "\<forall>evs\<in>set (pre @ [s] @ fails). Signal \<notin> set evs"
    and "Open \<in> set s"
    and "\<forall>evs\<in>set fails. Open \<notin> set evs"
  shows "sleeps (trace (start py (new_producer syms tp url) fails)) =
           map (\<lambda>k. min (2 ^ k) 60) [0..<length fails]
       \<and> sleeps (trace (start py (new_producer syms tp url) (pre @ [s] @ fails))) =
           sleeps (trace (start py (new_producer syms tp url) pre)) @
           map (\<lambda>k. min (2 ^ k) 60) [0..<Suc (length fails)]"
proof
  let ?np = "new_producer syms tp url"
  have quiet: "\<forall>evs\<in>set fails. Open \<notin> set evs \<and> Signal \<notin> set evs"
    using assms(1,3) by simp
  have fresh: "\<not> stop_event ?np" "backoff_seconds ?np = 1" "trace ?np = []"
    by (simp_all add: new_producer_def)
  show "sleeps (trace (start py ?np fails)) = map (\<lambda>k. min (2 ^ k) 60) [0..<length fails]"
    using start_fails[of ?np fails py] quiet fresh by simp
  let ?q = "start py ?np pre"
  have pre: "start py ?np (pre @ [s] @ fails) = start py ?q (s # fails)" "\<not> stop_event ?q"
    using start_append[of ?np pre py "[s] @ fails"] fresh(1) assms(1) by simp_all
  let ?q1 = "run_forever py (?q\<lparr>ws_app := True\<rparr>) s"
  let ?q' = "(emit [Log WARNING ''WebSocket disconnected, retrying in %s seconds'',
                    Sleep (backoff_seconds ?q1)] ?q1)
               \<lparr>backoff_seconds := min (backoff_seconds ?q1 * 2) 60\<rparr>"
  have sig: "Signal \<notin> set s" using assms(1) by simp
  have b1: "backoff_seconds ?q1 = 1"
    using assms(2) by (rule run_forever_opened)
  have st: "start py ?q (s # fails) = start py ?q' fails"
    using pre(2) sig by (rule start_retry)
  have q': "\<not> stop_event ?q'" "backoff_seconds ?q' = 2"
    "sleeps (trace ?q') = sleeps (trace ?q) @ [1]"
    using pre(2) sig
    by (simp_all add: emit_def run_forever_stop_event run_forever_sleeps sleeps_append b1)
  have "sleeps (trace (start py ?q' fails)) =
          sleeps (trace ?q') @ map (\<lambda>k. min (backoff_seconds ?q' * 2 ^ k) 60) [0..<length fails]"
    using q'(1) quiet by (intro start_fails) (simp_all add: q'(2))
  also have "\<dots> = sleeps (trace ?q) @ map (\<lambda>k. min (2 ^ k) 60) [0..<Suc (length fails)]"
    unfolding q'(2,3) by (simp add: map_upt_Suc del: upt_Suc)
  finally show "sleeps (trace (start py ?np (pre @ [s] @ fails))) =
                  sleeps (trace ?q) @ map (\<lambda>k. min (2 ^ k) 60) [0..<Suc (length fails)]"
    using pre(1) st by simp
qed

theorem reconnect_backoff_sequence_witness:
  "sleeps (trace (start \<lparr>json_loads = (\<lambda>m. Inr (JObj [])), str_to_int = (\<lambda>s. None), repr = (\<lambda>v. [])\<rparr>
                    (new_producer [''BTCUSDT''] ''trades.raw'' ''wss://stream'')
                    (replicate 8 [Error, Close]))) =
     [1, 2, 4, 8, 16, 32, 60, 60]
   \<and> sleeps (trace (start \<lparr>json_loads = (\<lambda>m. Inr (JObj [])), str_to_int = (\<lambda>s. None), repr = (\<lambda>v. [])\<rparr>
                    (new_producer [''BTCUSDT''] ''trades.raw'' ''wss://stream'')
                    ([[Error, Close], [Close]] @ [[Open, Message 1700000000000 None ''{}'', Close]]
                       @ replicate 8 [Error, Close]))) =
     sleeps (trace (start \<lparr>json_loads = (\<lambda>m. Inr (JObj [])), str_to_int = (\<lambda>s. None), repr = (\<lambda>v. [])\<rparr>
                    (new_producer [''BTCUSDT''] ''trades.raw'' ''wss://stream'')
                    [[Error, Close], [Close]])) @
     [1, 2, 4, 8, 16, 32, 60, 60, 60]"
proof -
  have sig: "\<forall>evs\<in>set ([[Error, Close], [Close]] @
                 [[Open, Message 1700000000000 None ''{}'', Close]] @
                 replicate 8 [Error, Close]). Signal \<notin> set evs"
    by simp
  have opened: "Open \<in> set [Open, Message 1700000000000 None ''{}'', Close]"
    by simp
  have failed: "\<forall>evs\<in>set (replicate 8 [Error, Close]). Open \<notin> set evs"
    by simp
  have m8: "map (\<lambda>k. min (2 ^ k) 60) [0..<length (replicate 8 [Error, Close])] =
              [1, 2, 4, 8, 16, 32, 60, 60 :: int]"
    by code_simp
  have m9: "map (\<lambda>k. min (2 ^ k) 60) [0..<Suc (length (replicate 8 [Error, Close]))] =
              [1, 2, 4, 8, 16, 32, 60, 60, 60 :: int]"
    by code_simp
  show ?thesis
    using reconnect_backoff_sequence [OF sig opened failed] unfolding m8 m9 .
qed

subsection \<open>Shutdown\<close>

text \<open>
  Claim C9. \<^verbatim>\<open>stop\<close> is idempotent: for every producer state a second call changes
  nothing, so the trace holds no second close and no second flush, and the stop event stays
  set.
\<close>

theorem stop_idempotent:
  "stop (stop p) = stop p \<and> trace (stop (stop p)) = trace (stop p) \<and> stop_event (stop p)"
  by (simp add: stop_def emit_def Let_def)

theorem stop_idempotent_witness:
  "stop (stop (new_producer [''BTCUSDT''] ''trades.raw'' ''wss://stream'' \<lparr>ws_app := True\<rparr>)) =
     stop (new_producer [''BTCUSDT''] ''trades.raw'' ''wss://stream'' \<lparr>ws_app := True\<rparr>)
   \<and> trace (stop (stop (new_producer [''BTCUSDT''] ''trades.raw'' ''wss://stream'' \<lparr>ws_app := True\<rparr>))) =
       [Log INFO ''Stopping Binance producer ...'', WsClose, KafkaFlush 10]"
  using stop_idempotent [of "new_producer [''BTCUSDT''] ''trades.raw'' ''wss://stream'' \<lparr>ws_app := True\<rparr>"]
  by (simp add: stop_def emit_def new_producer_def Let_def)

subsection \<open>Trade formatting\<close>

lemma str_of_nat_digit: "n < 10 \<Longrightarrow> str_of_nat n = [''0123456789'' ! n]"
  by (subst str_of_nat.simps) simp

lemma str_of_nat_more:
  "10 \<le> n \<Longrightarrow> str_of_nat n = str_of_nat (n div 10) @ [''0123456789'' ! (n mod 10)]"
  by (subst str_of_nat.simps) simp

lemma dict_get_option: "map_of kvs k = map_option f x \<Longrightarrow> dict_get kvs k d = (case x of None \<Rightarrow> d | Some y \<Rightarrow> f y)"
  by (cases x) (simp_all add: dict_get_def)

text \<open>
  Claim C7, as \<^verbatim>\<open>_format_trade\<close> has it. Take a trade message whose timestamps \<^verbatim>\<open>T\<close>
  and \<^verbatim>\<open>E\<close> and whose ids \<^verbatim>\<open>t\<close> and \<^verbatim>\<open>a\<close>, where present, are integers, whose maker
  flag \<^verbatim>\<open>m\<close>, where present, is a boolean and whose symbol, where present, is a string.
  Then a record is returned, and in it: \<^verbatim>\<open>ts\<close> is the trade time \<^verbatim>\<open>T\<close> when that is present
  and not zero, otherwise the event time \<^verbatim>\<open>E\<close> when that is present and not zero, and the
  local receipt time only when neither is; \<^verbatim>\<open>ingest_ts\<close> is the local receipt time;
  \<^verbatim>\<open>side\<close> is sell when the maker flag is true and buy otherwise; \<^verbatim>\<open>trade_id\<close> is the
  decimal text of \<^verbatim>\<open>t\<close>, of \<^verbatim>\<open>a\<close> when \<^verbatim>\<open>t\<close> is absent, and of the receipt time when both
  are absent.
\<close>

theorem format_trade_field_mapping:
  assumes "map_of trade ''T'' = map_option JInt T" and "map_of trade ''E'' = map_option JInt E"
    and "map_of trade ''t'' = map_option JInt tid" and "map_of trade ''a'' = map_option JInt agg"
    and "map_of trade ''m'' = map_option JBool maker"
    and "map_of trade ''s'' = map_option JStr smb"
  shows "\<exists>r. format_trade py now trade = Inr r
           \<and> ts r = (if T \<noteq> None \<and> T \<noteq> Some 0 then the T
                      else if E \<noteq> None \<and> E \<noteq> Some 0 then the E
                      else now)
           \<and> ingest_ts r = now
           \<and> side r = (if maker = Some True then ''sell'' else ''buy'')
           \<and> trade_id r = str_of_int (case tid of Some i \<Rightarrow> i
                                         | None \<Rightarrow> (case agg of Some i \<Rightarrow> i | None \<Rightarrow> now))"
proof -
  let ?t = "dict_get trade ''T'' JNull" and ?e = "dict_get trade ''E'' JNull"
  let ?v = "if truthy ?t then ?t else if truthy ?e then ?e else JInt now"
  let ?n = "if T \<noteq> None \<and> T \<noteq> Some 0 then the T
            else if E \<noteq> None \<and> E \<noteq> Some 0 then the E else now"
  have t: "?t = (case T of None \<Rightarrow> JNull | Some n \<Rightarrow> JInt n)"
    using assms(1) by (rule dict_get_option)
  have e: "?e = (case E of None \<Rightarrow> JNull | Some n \<Rightarrow> JInt n)"
    using assms(2) by (rule dict_get_option)
  have v: "?v = JInt ?n"
    unfolding t e by (cases T; cases E) auto
  have conv: "py_int py ?v = Inr ?n"
    unfolding v by simp
  have s: "dict_get trade ''s'' (JStr []) = JStr (case smb of None \<Rightarrow> [] | Some x \<Rightarrow> x)"
    using dict_get_option[OF assms(6), of "JStr []"] by (cases smb) simp_all
  have m: "truthy (dict_get trade ''m'' JNull) \<longleftrightarrow> maker = Some True"
    using dict_get_option[OF assms(5), of JNull] by (cases maker) simp_all
  have id: "py_str py (dict_get trade ''t'' (dict_get trade ''a'' (JInt now)))
              = str_of_int (case tid of Some i \<Rightarrow> i
                                        | None \<Rightarrow> (case agg of Some i \<Rightarrow> i | None \<Rightarrow> now))"
    using dict_get_option[OF assms(3), of "dict_get trade ''a'' (JInt now)"]
      dict_get_option[OF assms(4), of "JInt now"]
    by (cases tid; cases agg) simp_all
  show ?thesis
    using conv s m id by (simp add: format_trade_def Let_def)
qed

text \<open>
  Where the claim as first stated fails: with no trade time and an event time of 5, the
  record's \<^verbatim>\<open>ts\<close> is 5 and not the receipt time 9; a trade time that is present but
  zero is passed over for the receipt time; and with no trade id and an aggregate id of 77
  the record's \<^verbatim>\<open>trade_id\<close> is 77 and not derived from the receipt time.
\<close>

theorem format_trade_field_mapping_counterexample:
  "format_trade \<lparr>json_loads = (\<lambda>m. Inr (JObj [])), str_to_int = Map.empty, repr = (\<lambda>v. [])\<rparr> 9
       [(''e'', JStr ''trade''), (''E'', JInt 5), (''s'', JStr ''BTCUSDT'')]
     = Inr \<lparr>ts = 5, ingest_ts = 9, exchange = ''binance'', symbol = ''BTCUSDT'', trade_id = ''9'',
            side = ''buy'', price = JStr ''0'', qty = JStr ''0''\<rparr>
   \<and> format_trade \<lparr>json_loads = (\<lambda>m. Inr (JObj [])), str_to_int = Map.empty, repr = (\<lambda>v. [])\<rparr> 9
       [(''e'', JStr ''trade''), (''T'', JInt 0), (''s'', JStr ''BTCUSDT'')]
     = Inr \<lparr>ts = 9, ingest_ts = 9, exchange = ''binance'', symbol = ''BTCUSDT'', trade_id = ''9'',
            side = ''buy'', price = JStr ''0'', qty = JStr ''0''\<rparr>
   \<and> format_trade \<lparr>json_loads = (\<lambda>m. Inr (JObj [])), str_to_int = Map.empty, repr = (\<lambda>v. [])\<rparr> 9
       [(''e'', JStr ''trade''), (''a'', JInt 77), (''s'', JStr ''BTCUSDT'')]
     = Inr \<lparr>ts = 9, ingest_ts = 9, exchange = ''binance'', symbol = ''BTCUSDT'', trade_id = ''77'',
            side = ''buy'', price = JStr ''0'', qty = JStr ''0''\<rparr>"
  by (simp add: format_trade_def dict_get_def EXCHANGE_def upper_def upper_char_def
        str_of_int_def str_of_nat_digit str_of_nat_more)

theorem format_trade_field_mapping_witness:
  "\<exists>r. format_trade \<lparr>json_loads = (\<lambda>m. Inr (JObj [])), str_to_int = Map.empty, repr = (\<lambda>v. [])\<rparr>
            1672515782200
            [(''e'', JStr ''trade''), (''E'', JInt 1672515782136), (''s'', JStr ''bnbbtc''),
             (''t'', JInt 12345), (''p'', JStr ''0.001''), (''q'', JStr ''100''),
             (''T'', JInt 1672515782120), (''m'', JBool True), (''M'', JBool True)] = Inr r
       \<and> ts r = 1672515782120 \<and> ingest_ts r = 1672515782200 \<and> side r = ''sell''
       \<and> trade_id r = ''12345''"
  using format_trade_field_mapping
          [of "[(''e'', JStr ''trade''), (''E'', JInt 1672515782136), (''s'', JStr ''bnbbtc''),
                (''t'', JInt 12345), (''p'', JStr ''0.001''), (''q'', JStr ''100''),
                (''T'', JInt 1672515782120), (''m'', JBool True), (''M'', JBool True)]"
              "Some 1672515782120" "Some 1672515782136" "Some 12345" None "Some True"
              "Some ''bnbbtc''"
              "\<lparr>json_loads = (\<lambda>m. Inr (JObj [])), str_to_int = Map.empty, repr = (\<lambda>v. [])\<rparr>"
              1672515782200]
  by (simp add: str_of_int_def str_of_nat_digit str_of_nat_more)

section \<open>Properties of the detection job\<close>

subsection \<open>The threshold rule\<close>

text \<open>
  Claim C5. A window result yields exactly one alert when its volume is strictly greater than
  1.0 and none when it is less than or equal to 1.0; the alert carries the signal
  \<^verbatim>\<open>volume_spike\<close> and the result's symbol and exchange; and the results of a table are
  judged one by one, in order. The example that follows runs the two scenarios: quantities
  0.4, 0.5 and 0.3 give volume 1.2 and one alert, quantities 0.2 and 0.3 give volume 0.5 and
  none.
\<close>

theorem volume_spike_rule:
  "length (insert_alerts env [w]) = (if 1 < volume w then 1 else 0)
   \<and> (\<forall>a\<in>set (insert_alerts env [w]).
         signal a = ''volume_spike'' \<and> alert_symbol a = win_symbol w \<and> alert_exchange a = win_exchange w)
   \<and> (volume w \<le> 1 \<longrightarrow> insert_alerts env [w] = [])
   \<and> insert_alerts env (ws @ [w]) = insert_alerts env ws @ insert_alerts env [w]"
  by (simp add: insert_alerts_def select_alert_def)

theorem volume_spike_rule_witness:
  "length (insert_alerts
        \<lparr>read_double = Map.empty, double_to_string = (\<lambda>d. []),
         timestamp_to_string = (\<lambda>t. []), unix_timestamp = (\<lambda>s. 0)\<rparr>
        [\<lparr>window_end = 20000, win_symbol = ''BTCUSDT'', win_exchange = ''binance'',
          volume = 4 / 10 + 5 / 10 + 3 / 10, avg_price = 100\<rparr>]) = 1
   \<and> insert_alerts
        \<lparr>read_double = Map.empty, double_to_string = (\<lambda>d. []),
         timestamp_to_string = (\<lambda>t. []), unix_timestamp = (\<lambda>s. 0)\<rparr>
        [\<lparr>window_end = 20000, win_symbol = ''BTCUSDT'', win_exchange = ''binance'',
          volume = 2 / 10 + 3 / 10, avg_price = 100\<rparr>] = []"
  using volume_spike_rule
    [of "\<lparr>read_double = Map.empty, double_to_string = (\<lambda>d. []),
         timestamp_to_string = (\<lambda>t. []), unix_timestamp = (\<lambda>s. 0)\<rparr>"
        "\<lparr>window_end = 20000, win_symbol = ''BTCUSDT'', win_exchange = ''binance'',
          volume = 4 / 10 + 5 / 10 + 3 / 10, avg_price = 100\<rparr>" "[]"]
    volume_spike_rule
    [of "\<lparr>read_double = Map.empty, double_to_string = (\<lambda>d. []),
         timestamp_to_string = (\<lambda>t. []), unix_timestamp = (\<lambda>s. 0)\<rparr>"
        "\<lparr>window_end = 20000, win_symbol = ''BTCUSDT'', win_exchange = ''binance'',
          volume = 2 / 10 + 3 / 10, avg_price = 100\<rparr>" "[]"]
  by simp

subsection \<open>The timestamp of an alert\<close>

text \<open>
  Claim C6 does not hold of the select list. The alert's \<^verbatim>\<open>ts\<close> is not taken from
  \<^verbatim>\<open>window_end\<close> itself but from its text,
  \<^verbatim>\<open>UNIX_TIMESTAMP(CAST(window_end AS STRING)) * 1000\<close>, and the text is a local date and
  time in the session time zone. Whenever two window ends have the same text (the hour
  that a zone repeats when daylight saving time ends), their alerts get the same \<^verbatim>\<open>ts\<close>,
  so for at least one of them \<^verbatim>\<open>ts\<close> is not the window end.
\<close>

theorem alert_ts_same_text:
  assumes "timestamp_to_string env (window_end w1) = timestamp_to_string env (window_end w2)"
    and "window_end w1 \<noteq> window_end w2"
  shows "alert_ts (select_alert env w1) = alert_ts (select_alert env w2)
       \<and> (alert_ts (select_alert env w1) \<noteq> window_end w1
          \<or> alert_ts (select_alert env w2) \<noteq> window_end w2)"
  using assms by (auto simp: select_alert_def)

text \<open>
  In the zone of Berlin both 00:30:00 and 01:30:00 UTC of 29 October 2023 are printed as
  \<^verbatim>\<open>2023-10-29 02:30:00.000\<close>, which \<^verbatim>\<open>UNIX_TIMESTAMP\<close> reads as the later instant: the
  alert of the window that ends at 1698539400000 carries 1698543000000.
\<close>

theorem alert_ts_same_text_witness:
  "alert_ts (select_alert
       \<lparr>read_double = Map.empty, double_to_string = (\<lambda>d. []),
        timestamp_to_string =
          (\<lambda>t. if t = 1698539400000 \<or> t = 1698543000000 then ''2023-10-29 02:30:00.000'' else []),
        unix_timestamp = (\<lambda>s. if s = ''2023-10-29 02:30:00.000'' then 1698543000 else 0)\<rparr>
       \<lparr>window_end = 1698539400000, win_symbol = ''BTCUSDT'', win_exchange = ''binance'',
        volume = 2, avg_price = 100\<rparr>) = 1698543000000
   \<and> alert_ts (select_alert
       \<lparr>read_double = Map.empty, double_to_string = (\<lambda>d. []),
        timestamp_to_string =
          (\<lambda>t. if t = 1698539400000 \<or> t = 1698543000000 then ''2023-10-29 02:30:00.000'' else []),
        unix_timestamp = (\<lambda>s. if s = ''2023-10-29 02:30:00.000'' then 1698543000 else 0)\<rparr>
       \<lparr>window_end = 1698539400000, win_symbol = ''BTCUSDT'', win_exchange = ''binance'',
        volume = 2, avg_price = 100\<rparr>) \<noteq> 1698539400000"
  using alert_ts_same_text
    [of "\<lparr>read_double = Map.empty, double_to_string = (\<lambda>d. []),
        timestamp_to_string =
          (\<lambda>t. if t = 1698539400000 \<or> t = 1698543000000 then ''2023-10-29 02:30:00.000'' else []),
        unix_timestamp = (\<lambda>s. if s = ''2023-10-29 02:30:00.000'' then 1698543000 else 0)\<rparr>"
       "\<lparr>window_end = 1698539400000, win_symbol = ''BTCUSDT'', win_exchange = ''binance'',
        volume = 2, avg_price = 100\<rparr>"
       "\<lparr>window_end = 1698543000000, win_symbol = ''BTCUSDT'', win_exchange = ''binance'',
        volume = 2, avg_price = 100\<rparr>"]
  by (simp add: select_alert_def)

section \<open>Properties of the message handler\<close>

lemma unwrap_not_object: "payload \<notin> range JObj \<Longrightarrow> unwrap payload = Inl AttributeError"
  by (cases payload) (auto simp: unwrap_def)

lemma py_get_not_object: "trade \<notin> range JObj \<Longrightarrow> py_get trade k = Inl AttributeError"
  by (cases trade) auto

lemma unwrap_truthy:
  assumes "unwrap payload = Inr trade" and "trade \<notin> range JObj"
  shows "truthy trade"
proof (cases payload)
  case (JObj kvs)
  with assms show ?thesis
    by (auto simp: unwrap_def split: if_splits)
qed (use assms in \<open>simp_all add: unwrap_def\<close>)

lemma process_payload_not_object:
  assumes "unwrap payload = Inr trade" and "trade \<notin> range JObj"
  shows "process_payload py now refusal p payload = Inl AttributeError"
  using assms unwrap_truthy[OF assms] py_get_not_object[OF assms(2)]
  by (simp add: process_payload_def)

lemma process_payload_other:
  assumes "unwrap payload = Inr (JObj kvs)" and "dict_get kvs ''e'' JNull \<noteq> JStr ''trade''"
  shows "process_payload py now refusal p payload = Inr p"
  using assms by (simp add: process_payload_def)

lemma process_payload_trade:
  assumes "unwrap payload = Inr (JObj kvs)" and "dict_get kvs ''e'' JNull = JStr ''trade''"
  shows "process_payload py now refusal p payload =
           (case format_trade py now kvs of
              Inl x \<Rightarrow> Inl x
            | Inr r \<Rightarrow> (case refusal of
                         Some x \<Rightarrow> Inl x
                       | None \<Rightarrow> Inr (emit [KafkaProduce (topic p) (symbol r) r, KafkaPoll 0] p)))"
proof -
  from assms(2) have "kvs \<noteq> []" by (auto simp: dict_get_def)
  with assms show ?thesis by (simp add: process_payload_def)
qed

lemma produced_append: "produced (xs @ ys) = produced xs @ produced ys"
  by (induction xs rule: produced.induct) simp_all

lemma py_int_exc: "py_int py v = Inl x \<Longrightarrow> x \<in> {ValueError, TypeError, OverflowError}"
  by (cases v) (auto split: option.splits)

lemma py_upper_exc: "py_upper v = Inl x \<Longrightarrow> x = AttributeError"
  by (cases v) auto

lemma format_trade_exc:
  assumes "format_trade py now kvs = Inl x"
  shows "x \<in> {ValueError, TypeError, OverflowError, AttributeError}"
proof -
  let ?v = "if truthy (dict_get kvs ''T'' JNull) then dict_get kvs ''T'' JNull
            else if truthy (dict_get kvs ''E'' JNull) then dict_get kvs ''E'' JNull
            else JInt now"
  show ?thesis
  proof (cases "py_int py ?v")
    case (Inl y)
    with assms have "x = y" by (simp add: format_trade_def Let_def)
    with py_int_exc[OF Inl] show ?thesis by auto
  next
    case (Inr n)
    show ?thesis
    proof (cases "py_upper (dict_get kvs ''s'' (JStr []))")
      case (Inl y)
      with assms Inr have "x = y" by (simp add: format_trade_def Let_def)
      with py_upper_exc[OF Inl] show ?thesis by simp
    next
      case (Inr s)
      with assms \<open>py_int py ?v = Inr n\<close> show ?thesis by (simp add: format_trade_def Let_def)
    qed
  qed
qed

text \<open>
  Claim C8, as the handler has it. The handler never raises: it returns a producer state
  for every message. What it does with a message falls into these cases. A message on
  which \<^verbatim>\<open>json.loads\<close> raises is logged and dropped: as a warning when the exception is
  \<^verbatim>\<open>JSONDecodeError\<close>, as an error for any other (a \<^verbatim>\<open>RecursionError\<close>, a \<^verbatim>\<open>ValueError\<close>). A
  decoded payload that is not an object, or whose \<^verbatim>\<open>data\<close> member is a true value that is
  not an object, is logged and dropped. An object whose \<^verbatim>\<open>e\<close> is absent or not \<^verbatim>\<open>trade\<close>
  (another message type, an empty object) is dropped without a log line. A trade message
  whose formatting raises is logged and dropped. A trade message that formats is handed to
  the publisher, whichever of its data fields are missing, unless the publisher refuses
  it, which is logged. In every case in which a line is logged it is one line and nothing
  else happens; and a record reaches the publisher in the last case only.
\<close>

theorem on_message_malformed:
  "(\<forall>x. json_loads py m = Inl x \<longrightarrow>
      on_message py now refusal p m =
        (if x = JSONDecodeError then emit [Log WARNING ''Invalid JSON payload: %s''] p
         else emit [Log ERROR ''Failed to process trade: %s''] p))
 \<and> (\<forall>payload. json_loads py m = Inr payload \<and> payload \<notin> range JObj \<longrightarrow>
      on_message py now refusal p m = emit [Log ERROR ''Failed to process trade: %s''] p)
 \<and> (\<forall>payload trade. json_loads py m = Inr payload \<and> unwrap payload = Inr trade
        \<and> trade \<notin> range JObj \<longrightarrow>
      on_message py now refusal p m = emit [Log ERROR ''Failed to process trade: %s''] p)
 \<and> (\<forall>payload kvs. json_loads py m = Inr payload \<and> unwrap payload = Inr (JObj kvs)
        \<and> dict_get kvs ''e'' JNull \<noteq> JStr ''trade'' \<longrightarrow>
      on_message py now refusal p m = p)
 \<and> (\<forall>payload kvs x. json_loads py m = Inr payload \<and> unwrap payload = Inr (JObj kvs)
        \<and> dict_get kvs ''e'' JNull = JStr ''trade'' \<and> format_trade py now kvs = Inl x \<longrightarrow>
      on_message py now refusal p m = emit [Log ERROR ''Failed to process trade: %s''] p)
 \<and> (\<forall>payload kvs r. json_loads py m = Inr payload \<and> unwrap payload = Inr (JObj kvs)
        \<and> dict_get kvs ''e'' JNull = JStr ''trade'' \<and> format_trade py now kvs = Inr r \<longrightarrow>
      on_message py now refusal p m =
        (case refusal of
           None \<Rightarrow> emit [KafkaProduce (topic p) (symbol r) r, KafkaPoll 0] p
         | Some x \<Rightarrow>
             (if x = JSONDecodeError then emit [Log WARNING ''Invalid JSON payload: %s''] p
              else emit [Log ERROR ''Failed to process trade: %s''] p)))
 \<and> (produced (trace (on_message py now refusal p m)) \<noteq> produced (trace p) \<longrightarrow>
      refusal = None
      \<and> (\<exists>payload kvs r. json_loads py m = Inr payload \<and> unwrap payload = Inr (JObj kvs)
         \<and> dict_get kvs ''e'' JNull = JStr ''trade'' \<and> format_trade py now kvs = Inr r))"
proof (intro conjI allI impI)
  fix x
  assume "json_loads py m = Inl x"
  then show "on_message py now refusal p m =
        (if x = JSONDecodeError then emit [Log WARNING ''Invalid JSON payload: %s''] p
         else emit [Log ERROR ''Failed to process trade: %s''] p)"
    by (simp add: on_message_def try_block_def)
next
  fix payload
  assume "json_loads py m = Inr payload \<and> payload \<notin> range JObj"
  then show "on_message py now refusal p m = emit [Log ERROR ''Failed to process trade: %s''] p"
    using unwrap_not_object[of payload]
    by (simp add: on_message_def try_block_def process_payload_def)
next
  fix payload trade
  assume "json_loads py m = Inr payload \<and> unwrap payload = Inr trade \<and> trade \<notin> range JObj"
  then show "on_message py now refusal p m = emit [Log ERROR ''Failed to process trade: %s''] p"
    using process_payload_not_object[of payload trade py now refusal p]
    by (simp add: on_message_def try_block_def)
next
  fix payload kvs
  assume "json_loads py m = Inr payload \<and> unwrap payload = Inr (JObj kvs)
            \<and> dict_get kvs ''e'' JNull \<noteq> JStr ''trade''"
  then show "on_message py now refusal p m = p"
    using process_payload_other[of payload kvs py now refusal p]
    by (simp add: on_message_def try_block_def)
next
  fix payload kvs x
  assume a: "json_loads py m = Inr payload \<and> unwrap payload = Inr (JObj kvs)
            \<and> dict_get kvs ''e'' JNull = JStr ''trade'' \<and> format_trade py now kvs = Inl x"
  then have "x \<noteq> JSONDecodeError" using format_trade_exc[of py now kvs x] by auto
  with a show "on_message py now refusal p m = emit [Log ERROR ''Failed to process trade: %s''] p"
    using process_payload_trade[of payload kvs py now refusal p]
    by (simp add: on_message_def try_block_def)
next
  fix payload kvs r
  assume "json_loads py m = Inr payload \<and> unwrap payload = Inr (JObj kvs)
            \<and> dict_get kvs ''e'' JNull = JStr ''trade'' \<and> format_trade py now kvs = Inr r"
  then show "on_message py now refusal p m =
        (case refusal of
           None \<Rightarrow> emit [KafkaProduce (topic p) (symbol r) r, KafkaPoll 0] p
         | Some x \<Rightarrow>
             (if x = JSONDecodeError then emit [Log WARNING ''Invalid JSON payload: %s''] p
              else emit [Log ERROR ''Failed to process trade: %s''] p))"
    using process_payload_trade[of payload kvs py now refusal p]
    by (cases refusal) (simp_all add: on_message_def try_block_def)
next
  assume changed: "produced (trace (on_message py now refusal p m)) \<noteq> produced (trace p)"
  have log: "produced (trace (emit [Log l s] p)) = produced (trace p)" for l s
    by (simp add: emit_def produced_append)
  from changed obtain p' where tb: "try_block py now refusal p m = Inr p'"
    by (cases "try_block py now refusal p m") (auto simp: on_message_def log split: if_splits)
  with changed have diff: "produced (trace p') \<noteq> produced (trace p)"
    by (simp add: on_message_def)
  from tb obtain payload where payload: "json_loads py m = Inr payload"
    by (cases "json_loads py m") (auto simp: try_block_def)
  with tb have p': "process_payload py now refusal p payload = Inr p'"
    by (simp add: try_block_def)
  from p' obtain trade where trade: "unwrap payload = Inr trade"
    by (cases "unwrap payload") (auto simp: process_payload_def)
  from p' trade obtain kvs where kvs: "trade = JObj kvs"
    using process_payload_not_object[of payload trade py now refusal p] by (cases trade) auto
  have e: "dict_get kvs ''e'' JNull = JStr ''trade''"
    using process_payload_other[of payload kvs py now refusal p] trade kvs p' diff by auto
  from process_payload_trade[of payload kvs py now refusal p] trade kvs e p'
  obtain r where r: "format_trade py now kvs = Inr r" and nf: "refusal = None"
    by (cases "format_trade py now kvs"; cases refusal) auto
  from nf show "refusal = None" .
  from r payload trade kvs e
  show "\<exists>payload kvs r. json_loads py m = Inr payload \<and> unwrap payload = Inr (JObj kvs)
         \<and> dict_get kvs ''e'' JNull = JStr ''trade'' \<and> format_trade py now kvs = Inr r"
    by blast
qed

text \<open>
  Two messages the handler does not treat as the claim says. A kline event, which is not
  a trade message, is dropped and nothing is logged; a trade message with no data field at
  all is not dropped: a record with the defaults is handed to the publisher.
\<close>

theorem on_message_malformed_counterexample:
  \<open>trace (on_message
            \<lparr>json_loads = (\<lambda>m. if m = ''{"e": "kline", "s": "BTCUSDT"}''
                                then Inr (JObj [(''e'', JStr ''kline''), (''s'', JStr ''BTCUSDT'')])
                                else Inl JSONDecodeError),
             str_to_int = (\<lambda>s. None), repr = (\<lambda>v. [])\<rparr>
            1700000000000 None (new_producer [''BTCUSDT''] ''trades.raw'' ''wss://stream'')
            ''{"e": "kline", "s": "BTCUSDT"}'') = []
   \<and> produced (trace (on_message
            \<lparr>json_loads = (\<lambda>m. if m = ''{"e": "trade"}'' then Inr (JObj [(''e'', JStr ''trade'')])
                                else Inl JSONDecodeError),
             str_to_int = (\<lambda>s. None), repr = (\<lambda>v. [])\<rparr>
            1700000000000 None (new_producer [''BTCUSDT''] ''trades.raw'' ''wss://stream'')
            ''{"e": "trade"}'')) =
       [\<lparr>ts = 1700000000000, ingest_ts = 1700000000000, exchange = ''binance'', symbol = [],
         trade_id = ''1700000000000'', side = ''buy'', price = JStr ''0'', qty = JStr ''0''\<rparr>]\<close>
  by (simp add: on_message_def try_block_def process_payload_def unwrap_def format_trade_def
        dict_get_def new_producer_def emit_def EXCHANGE_def upper_def str_of_int_def
        str_of_nat_digit str_of_nat_more)

theorem on_message_malformed_witness:
  \<open>on_message \<lparr>json_loads = (\<lambda>m. Inl JSONDecodeError), str_to_int = (\<lambda>s. None), repr = (\<lambda>v. [])\<rparr>
      1700000000000 None (new_producer [''BTCUSDT''] ''trades.raw'' ''wss://stream'') ''<html>''
     = emit [Log WARNING ''Invalid JSON payload: %s''] (new_producer [''BTCUSDT''] ''trades.raw'' ''wss://stream'')
   \<and> on_message \<lparr>json_loads = (\<lambda>m. Inl RecursionError), str_to_int = (\<lambda>s. None), repr = (\<lambda>v. [])\<rparr>
      1700000000000 None (new_producer [''BTCUSDT''] ''trades.raw'' ''wss://stream'') ''[[[[''
     = emit [Log ERROR ''Failed to process trade: %s''] (new_producer [''BTCUSDT''] ''trades.raw'' ''wss://stream'')
   \<and> on_message \<lparr>json_loads = (\<lambda>m. Inr (JList [JInt 1, JInt 2])),
                  str_to_int = (\<lambda>s. None), repr = (\<lambda>v. [])\<rparr>
      1700000000000 None (new_producer [''BTCUSDT''] ''trades.raw'' ''wss://stream'') ''[1, 2]''
     = emit [Log ERROR ''Failed to process trade: %s''] (new_producer [''BTCUSDT''] ''trades.raw'' ''wss://stream'')
   \<and> on_message \<lparr>json_loads = (\<lambda>m. Inr (JObj [(''result'', JNull), (''id'', JInt 1)])),
                  str_to_int = (\<lambda>s. None), repr = (\<lambda>v. [])\<rparr>
      1700000000000 None (new_producer [''BTCUSDT''] ''trades.raw'' ''wss://stream'')
      ''{"result": null, "id": 1}''
     = (new_producer [''BTCUSDT''] ''trades.raw'' ''wss://stream'')
   \<and> on_message \<lparr>json_loads = (\<lambda>m. Inr (JObj [(''e'', JStr ''trade''), (''T'', JStr ''soon'')])),
                  str_to_int = (\<lambda>s. None), repr = (\<lambda>v. [])\<rparr>
      1700000000000 None (new_producer [''BTCUSDT''] ''trades.raw'' ''wss://stream'')
      ''{"e": "trade", "T": "soon"}''
     = emit [Log ERROR ''Failed to process trade: %s''] (new_producer [''BTCUSDT''] ''trades.raw'' ''wss://stream'')\<close>
proof -
  let ?np = "(new_producer [''BTCUSDT''] ''trades.raw'' ''wss://stream'')"
  let ?py1 = "\<lparr>json_loads = (\<lambda>m. Inl JSONDecodeError), str_to_int = (\<lambda>s. None), repr = (\<lambda>v. [])\<rparr>"
  let ?py1b = "\<lparr>json_loads = (\<lambda>m. Inl RecursionError), str_to_int = (\<lambda>s. None), repr = (\<lambda>v. [])\<rparr>"
  let ?py2 = "\<lparr>json_loads = (\<lambda>m. Inr (JList [JInt 1, JInt 2])),
                str_to_int = (\<lambda>s. None), repr = (\<lambda>v. [])\<rparr>"
  let ?m3 = \<open>''{"result": null, "id": 1}''\<close>
  let ?ack = "[(''result'', JNull), (''id'', JInt 1)]"
  let ?py3 = "\<lparr>json_loads = (\<lambda>m. Inr (JObj ?ack)), str_to_int = (\<lambda>s. None), repr = (\<lambda>v. [])\<rparr>"
  let ?m4 = \<open>''{"e": "trade", "T": "soon"}''\<close>
  let ?bad = "[(''e'', JStr ''trade''), (''T'', JStr ''soon'')]"
  let ?py4 = "\<lparr>json_loads = (\<lambda>m. Inr (JObj ?bad)), str_to_int = (\<lambda>s. None), repr = (\<lambda>v. [])\<rparr>"
  have undecodable: "json_loads ?py1 ''<html>'' = Inl JSONDecodeError"
    by simp
  have too_deep: "json_loads ?py1b ''[[[['' = Inl RecursionError"
    by simp
  have no_object: "json_loads ?py2 ''[1, 2]'' = Inr (JList [JInt 1, JInt 2])
                     \<and> JList [JInt 1, JInt 2] \<notin> range JObj"
    by auto
  have no_trade: "json_loads ?py3 ?m3 = Inr (JObj ?ack) \<and> unwrap (JObj ?ack) = Inr (JObj ?ack)
                    \<and> dict_get ?ack ''e'' JNull \<noteq> JStr ''trade''"
    by (simp add: unwrap_def dict_get_def)
  have raises: "json_loads ?py4 ?m4 = Inr (JObj ?bad) \<and> unwrap (JObj ?bad) = Inr (JObj ?bad)
                    \<and> dict_get ?bad ''e'' JNull = JStr ''trade''
                    \<and> format_trade ?py4 1700000000000 ?bad = Inl ValueError"
    by (simp add: unwrap_def dict_get_def format_trade_def)
  have "on_message ?py1 1700000000000 None ?np ''<html>'' =
          emit [Log WARNING ''Invalid JSON payload: %s''] ?np"
    using on_message_malformed [of ?py1 "''<html>''" 1700000000000 None ?np] undecodable
    by simp
  moreover have "on_message ?py1b 1700000000000 None ?np ''[[[['' =
          emit [Log ERROR ''Failed to process trade: %s''] ?np"
    using on_message_malformed [of ?py1b "''[[[[''" 1700000000000 None ?np] too_deep
    by simp
  moreover have "on_message ?py2 1700000000000 None ?np ''[1, 2]'' =
          emit [Log ERROR ''Failed to process trade: %s''] ?np"
    using on_message_malformed [of ?py2 "''[1, 2]''" 1700000000000 None ?np] no_object
    by blast
  moreover have "on_message ?py3 1700000000000 None ?np ?m3 = ?np"
    using on_message_malformed [of ?py3 ?m3 1700000000000 None ?np] no_trade
    by blast
  moreover have "on_message ?py4 1700000000000 None ?np ?m4 =
          emit [Log ERROR ''Failed to process trade: %s''] ?np"
    using on_message_malformed [of ?py4 ?m4 1700000000000 None ?np] raises
    by blast
  ultimately show ?thesis
    by (intro conjI)
qed
section \<open>Properties of the windowing engine\<close>

subsection \<open>The state of a key\<close>

lemma accumulate_keys:
  "map fst (accumulate w q p accs) =
     (if w \<in> fst ` set accs then map fst accs else map fst accs @ [w])"
  by (induction accs) (auto simp: rev_image_eqI)

lemma accumulate_distinct:
  "distinct (map fst accs) \<Longrightarrow> distinct (map fst (accumulate w q p accs))"
  by (simp add: accumulate_keys)

lemma accumulate_starts: "fst ` set (accumulate w q p accs) = insert w (fst ` set accs)"
proof -
  have "set (map fst (accumulate w q p accs)) = insert w (set (map fst accs))"
    unfolding accumulate_keys by auto
  then show ?thesis by simp
qed

lemma windowStart_multiple: "windowStart t mod windowSizeMs = 0"
  by (simp add: windowStart_def)

lemma windowStart_bounds: "windowStart t \<le> t \<and> t < windowStart t + windowSizeMs"
proof -
  have "0 \<le> t mod 10000" "t mod 10000 < 10000" by simp_all
  moreover have "t = (t div 10000) * 10000 + t mod 10000" by simp
  ultimately show ?thesis unfolding windowStart_def windowSizeMs_def by linarith
qed

lemma next_multiple:
  assumes "a mod windowSizeMs = 0" and "b mod windowSizeMs = 0" and "a < b"
  shows "a + windowSizeMs \<le> b"
proof -
  have "windowSizeMs dvd b - a"
    using assms(1,2) by (simp add: mod_eq_0_iff_dvd)
  moreover have "0 < b - a" using assms(3) by simp
  ultimately have "windowSizeMs \<le> b - a" by (rule zdvd_imp_le)
  then show ?thesis by simp
qed

lemma boundary_fold:
  fixes xs :: "(int \<times> accumulator) list"
  defines "F \<equiv> foldl (\<lambda>cb wa. Some (max_opt cb (fst wa + windowSizeMs)))"
  shows "(xs = [] \<and> F cb xs = cb)
       \<or> (\<exists>c. F cb xs = Some c
             \<and> (cb = Some c \<or> (\<exists>wa\<in>set xs. c = fst wa + windowSizeMs))
             \<and> (\<forall>wa\<in>set xs. fst wa + windowSizeMs \<le> c)
             \<and> (\<forall>c0. cb = Some c0 \<longrightarrow> c0 \<le> c))"
proof (induction xs arbitrary: cb)
  case Nil
  then show ?case by (simp add: F_def)
next
  case (Cons x xs)
  let ?cb1 = "Some (max_opt cb (fst x + windowSizeMs))"
  have step: "F cb (x # xs) = F ?cb1 xs" by (simp add: F_def)
  have m1: "fst x + windowSizeMs \<le> max_opt cb (fst x + windowSizeMs)"
    by (simp add: max_opt_def split: option.splits)
  have m2: "\<forall>c0. cb = Some c0 \<longrightarrow> c0 \<le> max_opt cb (fst x + windowSizeMs)"
    by (simp add: max_opt_def)
  have m3: "cb = Some (max_opt cb (fst x + windowSizeMs))
            \<or> max_opt cb (fst x + windowSizeMs) = fst x + windowSizeMs"
    by (auto simp: max_opt_def max_def split: option.splits)
  from Cons.IH[of ?cb1] consider
      (empty) "xs = []" "F ?cb1 xs = ?cb1"
    | (more) c where "F ?cb1 xs = Some c"
        "?cb1 = Some c \<or> (\<exists>wa\<in>set xs. c = fst wa + windowSizeMs)"
        "\<forall>wa\<in>set xs. fst wa + windowSizeMs \<le> c"
        "\<forall>c0. ?cb1 = Some c0 \<longrightarrow> c0 \<le> c"
    by blast
  then show ?case
  proof cases
    case empty
    then show ?thesis using step m1 m2 m3 by auto
  next
    case (more c)
    note c = more(1) and src = more(2) and ub = more(3) and mono = more(4)
    from mono have le: "max_opt cb (fst x + windowSizeMs) \<le> c" by simp
    have "cb = Some c \<or> (\<exists>wa\<in>set (x # xs). c = fst wa + windowSizeMs)"
      using src m3 by auto
    moreover have "\<forall>wa\<in>set (x # xs). fst wa + windowSizeMs \<le> c"
      using ub le m1 by auto
    moreover have "\<forall>c0. cb = Some c0 \<longrightarrow> c0 \<le> c"
      using le m2 by force
    ultimately show ?thesis using step c by auto
  qed
qed

lemma ingest_facts:
  assumes inv: "key_inv s" and step: "ingest k s t = (s', out)"
  shows "key_inv s'"
    and "\<forall>r\<in>set out. win_exchange r = fst k \<and> win_symbol r = snd k"
    and "\<forall>r\<in>set out. \<exists>c. closedBoundary s' = Some c \<and> window_end r \<le> c"
    and "\<forall>r\<in>set out. \<forall>cb. closedBoundary s = Some cb \<longrightarrow> cb < window_end r"
    and "distinct (map window_end out)"
    and "\<forall>cb. closedBoundary s = Some cb \<longrightarrow> (\<exists>c. closedBoundary s' = Some c \<and> cb \<le> c)"
proof -
  define w where "w = windowStart (ts t)"
  define late where "late = (case closedBoundary s of None \<Rightarrow> False | Some cb \<Rightarrow> w < cb)"
  define accs1 where
    "accs1 = (if late then accumulators s else accumulate w (qty t) (price t) (accumulators s))"
  define m where "m = max_opt (maxObservedEventTime s) (ts t)"
  define wm where "wm = m - allowedLateness"
  define closing where
    "closing = sort_key fst (filter (\<lambda>wa. fst wa + windowSizeMs \<le> wm) accs1)"
  define remaining where "remaining = filter (\<lambda>wa. \<not> fst wa + windowSizeMs \<le> wm) accs1"
  define cb' where
    "cb' = foldl (\<lambda>cb wa. Some (max_opt cb (fst wa + windowSizeMs))) (closedBoundary s) closing"
  have s': "accumulators s' = remaining" "maxObservedEventTime s' = Some m"
    "closedBoundary s' = cb'" "out = map (snapshot k) closing"
    using step
    unfolding ingest_def Let_def remaining_def closing_def cb'_def wm_def m_def accs1_def
      late_def w_def
    by (auto split: if_splits)
  have set_closing: "set closing = {wa \<in> set accs1. fst wa + windowSizeMs \<le> wm}"
    by (auto simp: closing_def)
  have set_remaining: "set remaining = {wa \<in> set accs1. \<not> fst wa + windowSizeMs \<le> wm}"
    by (auto simp: remaining_def)
  have d1: "distinct (map fst accs1)"
    using inv by (simp add: accs1_def key_inv_def accumulate_distinct)
  have starts1: "fst ` set accs1 \<subseteq> insert w (fst ` set (accumulators s))"
    by (auto simp: accs1_def accumulate_starts)
  have new_ok: "\<not> late \<Longrightarrow> \<forall>cb. closedBoundary s = Some cb \<longrightarrow> cb \<le> w"
    by (auto simp: late_def)
  have new_in: "w \<in> fst ` set accs1 \<Longrightarrow> w \<notin> fst ` set (accumulators s) \<Longrightarrow> \<not> late"
    by (auto simp: accs1_def)
  have a1: "fst wa mod windowSizeMs = 0 \<and> (\<forall>cb. closedBoundary s = Some cb \<longrightarrow> cb \<le> fst wa)"
    if "wa \<in> set accs1" for wa
  proof (cases "fst wa \<in> fst ` set (accumulators s)")
    case True
    then show ?thesis using inv by (auto simp: key_inv_def)
  next
    case False
    with that starts1 have "fst wa = w" by auto
    moreover from this that False have "\<not> late" using new_in by force
    ultimately show ?thesis using new_ok by (simp add: w_def windowStart_multiple)
  qed
  have m_mono: "\<forall>m0. maxObservedEventTime s = Some m0 \<longrightarrow> m0 \<le> m"
    by (simp add: m_def max_opt_def)
  from boundary_fold[of closing "closedBoundary s"]
  consider (same) "closing = []" "cb' = closedBoundary s"
    | (moved) c where "cb' = Some c"
        "closedBoundary s = Some c \<or> (\<exists>wa\<in>set closing. c = fst wa + windowSizeMs)"
        "\<forall>wa\<in>set closing. fst wa + windowSizeMs \<le> c"
        "\<forall>c0. closedBoundary s = Some c0 \<longrightarrow> c0 \<le> c"
    unfolding cb'_def by blast
  note boundary = this
  have old_cb: "c mod windowSizeMs = 0 \<and> c \<le> wm" if "closedBoundary s = Some c" for c
  proof -
    from inv that obtain m0 where "c mod windowSizeMs = 0" "maxObservedEventTime s = Some m0"
      "c \<le> m0 - allowedLateness"
      by (auto simp: key_inv_def)
    with m_mono show ?thesis by (auto simp: wm_def)
  qed
  have closing_cb: "(fst wa + windowSizeMs) mod windowSizeMs = 0 \<and> fst wa + windowSizeMs \<le> wm"
    if "wa \<in> set closing" for wa
    using that a1[of wa] by (auto simp: set_closing)
  have cb'_ok: "c mod windowSizeMs = 0 \<and> c \<le> wm" if "cb' = Some c" for c
  proof (cases rule: boundary)
    case same
    with that show ?thesis using old_cb by simp
  next
    case (moved c1)
    with that have "c1 = c" by simp
    with moved(2) show ?thesis using old_cb closing_cb by auto
  qed
  have below_remaining: "c \<le> fst wa" if "cb' = Some c" "wa \<in> set remaining" for c wa
  proof -
    have wa: "wa \<in> set accs1" "wm < fst wa + windowSizeMs"
      using that(2) by (auto simp: set_remaining)
    have "c < fst wa + windowSizeMs"
      using cb'_ok[OF that(1)] wa(2) by simp
    then have "c - windowSizeMs < fst wa" by simp
    moreover have "(c - windowSizeMs) mod windowSizeMs = 0"
      using cb'_ok[OF that(1)] by (simp add: mod_eq_0_iff_dvd)
    ultimately have "c - windowSizeMs + windowSizeMs \<le> fst wa"
      using a1[OF wa(1)] by (intro next_multiple) simp_all
    then show ?thesis by simp
  qed
  show "key_inv s'"
    unfolding key_inv_def s'
  proof (intro conjI ballI allI impI)
    show "distinct (map fst remaining)"
      using d1 by (simp add: remaining_def distinct_map_filter)
  next
    fix wa assume "wa \<in> set remaining"
    then show "fst wa mod windowSizeMs = 0"
      using a1[of wa] by (simp add: set_remaining)
  next
    fix wa assume "wa \<in> set remaining"
    then show "\<exists>ma. Some m = Some ma \<and> ma - allowedLateness < fst wa + windowSizeMs"
      by (auto simp: set_remaining wm_def)
  next
    fix wa c assume "wa \<in> set remaining" "cb' = Some c"
    then show "c \<le> fst wa" using below_remaining by simp
  next
    fix c assume "cb' = Some c"
    then show "c mod windowSizeMs = 0" using cb'_ok by simp
  next
    fix c assume "cb' = Some c"
    then show "\<exists>ma. Some m = Some ma \<and> c \<le> ma - allowedLateness"
      using cb'_ok[of c] by (simp add: wm_def)
  qed
  show "\<forall>r\<in>set out. win_exchange r = fst k \<and> win_symbol r = snd k"
    by (auto simp: s' snapshot_def)
  show "\<forall>r\<in>set out. \<exists>c. closedBoundary s' = Some c \<and> window_end r \<le> c"
  proof
    fix r assume "r \<in> set out"
    then obtain wa where wa: "wa \<in> set closing" "r = snapshot k wa"
      by (auto simp: s')
    then have "closing \<noteq> []" by auto
    then obtain c where "cb' = Some c" "\<forall>wa\<in>set closing. fst wa + windowSizeMs \<le> c"
      by (cases rule: boundary) auto
    with wa show "\<exists>c. closedBoundary s' = Some c \<and> window_end r \<le> c"
      by (auto simp: s' snapshot_def)
  qed
  show "\<forall>r\<in>set out. \<forall>cb. closedBoundary s = Some cb \<longrightarrow> cb < window_end r"
  proof (intro ballI allI impI)
    fix r cb assume "r \<in> set out" "closedBoundary s = Some cb"
    then obtain wa where wa: "wa \<in> set accs1" "r = snapshot k wa"
      by (auto simp: s' set_closing)
    with a1[of wa] \<open>closedBoundary s = Some cb\<close> show "cb < window_end r"
      by (simp add: snapshot_def windowSizeMs_def)
  qed
  show "distinct (map window_end out)"
  proof -
    have "distinct (map fst closing)"
      using d1 unfolding closing_def
      by (simp add: distinct_map distinct_map_filter inj_on_def)
    then have "distinct (map (\<lambda>wa. fst wa + windowSizeMs) closing)"
      by (simp add: distinct_map inj_on_def)
    moreover have "map window_end out = map (\<lambda>wa. fst wa + windowSizeMs) closing"
      by (simp add: s' snapshot_def)
    ultimately show ?thesis by simp
  qed
  show "\<forall>cb. closedBoundary s = Some cb \<longrightarrow> (\<exists>c. closedBoundary s' = Some c \<and> cb \<le> c)"
    unfolding s' by (cases rule: boundary) auto
qed

subsection \<open>One result for each window\<close>

lemma key_inv_empty: "key_inv empty_key"
  by (simp add: key_inv_def empty_key_def)

lemma receive_inv:
  assumes keys: "\<forall>k. key_inv (st k)"
    and once: "distinct (map window_key out)"
    and closed: "\<forall>r\<in>set out. \<exists>c. closedBoundary (st (win_exchange r, win_symbol r)) = Some c
                                  \<and> window_end r \<le> c"
    and step: "receive st t = (st', new)"
  shows "\<forall>k. key_inv (st' k)"
    and "distinct (map window_key (out @ new))"
    and "\<forall>r\<in>set (out @ new). \<exists>c. closedBoundary (st' (win_exchange r, win_symbol r)) = Some c
                                  \<and> window_end r \<le> c"
proof -
  define k where "k = (exchange t, symbol t)"
  obtain s' where ing: "ingest k (st k) t = (s', new)" and st': "st' = st(k := s')"
    using step by (cases "ingest k (st k) t") (auto simp: receive_def Let_def k_def)
  note f = ingest_facts[OF keys[rule_format, of k] ing]
  show "\<forall>k. key_inv (st' k)"
    using keys f(1) by (simp add: st')
  have new_key: "(win_exchange r, win_symbol r) = k" if "r \<in> set new" for r
    using f(2) that by (cases k) auto
  show closed': "\<forall>r\<in>set (out @ new).
      \<exists>c. closedBoundary (st' (win_exchange r, win_symbol r)) = Some c \<and> window_end r \<le> c"
  proof
    fix r assume "r \<in> set (out @ new)"
    then consider (old) "r \<in> set out" | (new) "r \<in> set new" by auto
    then show "\<exists>c. closedBoundary (st' (win_exchange r, win_symbol r)) = Some c \<and> window_end r \<le> c"
    proof cases
      case old
      with closed obtain c where c: "closedBoundary (st (win_exchange r, win_symbol r)) = Some c"
        "window_end r \<le> c" by blast
      show ?thesis
      proof (cases "(win_exchange r, win_symbol r) = k")
        case True
        with c f(6) obtain c' where "closedBoundary s' = Some c'" "c \<le> c'" by auto
        with True c(2) show ?thesis by (auto simp: st')
      next
        case False
        with c show ?thesis by (auto simp: st')
      qed
    next
      case new
      with f(3) new_key[OF new] show ?thesis by (auto simp: st')
    qed
  qed
  have "distinct (map window_key new)"
  proof -
    have eq: "map window_key new = map (\<lambda>r. (fst k, snd k, window_end r - windowSizeMs)) new"
      using f(2) by (simp add: window_key_def)
    show ?thesis
      unfolding eq using f(5) by (simp add: distinct_map inj_on_def)
  qed
  moreover have "window_key r' \<noteq> window_key r" if "r \<in> set out" "r' \<in> set new" for r r'
  proof
    assume same: "window_key r' = window_key r"
    then have "(win_exchange r, win_symbol r) = k" "window_end r = window_end r'"
      using new_key[OF that(2)] by (auto simp: window_key_def)
    moreover from closed that(1) obtain c where
      "closedBoundary (st (win_exchange r, win_symbol r)) = Some c" "window_end r \<le> c" by blast
    ultimately show False using f(4) that(2) by fastforce
  qed
  then have "set (map window_key out) \<inter> set (map window_key new) = {}"
    by fastforce
  ultimately show "distinct (map window_key (out @ new))"
    using once by simp
qed

lemma run_inv:
  assumes "\<forall>k. key_inv (st k)"
    and "distinct (map window_key out)"
    and "\<forall>r\<in>set out. \<exists>c. closedBoundary (st (win_exchange r, win_symbol r)) = Some c
                          \<and> window_end r \<le> c"
  shows "(\<forall>k. key_inv (fst (run st trades) k))
       \<and> distinct (map window_key (out @ snd (run st trades)))
       \<and> (\<forall>r\<in>set (out @ snd (run st trades)).
            \<exists>c. closedBoundary (fst (run st trades) (win_exchange r, win_symbol r)) = Some c
                \<and> window_end r \<le> c)"
  using assms
proof (induction trades arbitrary: st out)
  case Nil
  then show ?case by simp
next
  case (Cons t trades)
  obtain st1 new where r: "receive st t = (st1, new)" by (cases "receive st t")
  note i = receive_inv[OF Cons.prems r]
  from Cons.IH[OF i] r show ?case by (simp add: Let_def)
qed

lemma run_append:
  "run st (xs @ ys) = (fst (run (fst (run st xs)) ys), snd (run st xs) @ snd (run (fst (run st xs)) ys))"
  by (induction xs arbitrary: st) (simp_all add: Let_def)

lemma run_empty_inv:
  "(\<forall>k. key_inv (fst (run empty_engine trades) k))
   \<and> distinct (map window_key (snd (run empty_engine trades)))
   \<and> (\<forall>r\<in>set (snd (run empty_engine trades)).
        \<exists>c. closedBoundary (fst (run empty_engine trades) (win_exchange r, win_symbol r)) = Some c
            \<and> window_end r \<le> c)"
  using run_inv[of empty_engine "[]" trades] by (simp add: empty_engine_def key_inv_empty)

text \<open>
  Claim C2. Over a whole run of the engine from its initial state, whatever the trades and
  their order (out of order, late, duplicated), no two emitted WindowResults have the same
  (exchange, symbol, windowStart); put the other way, once the trades of a prefix of the
  run have made the engine emit the result of a window, no continuation of the run makes
  it emit a result for that window again.
\<close>

theorem at_most_one_result_per_window:
  "distinct (map window_key (snd (run empty_engine trades)))
   \<and> (\<forall>r\<in>set (snd (run empty_engine before)).
        \<forall>r'\<in>set (snd (run (fst (run empty_engine before)) later)).
          window_key r' \<noteq> window_key r)"
proof
  show "distinct (map window_key (snd (run empty_engine trades)))"
    using run_empty_inv[of trades] by simp
  have "distinct (map window_key (snd (run empty_engine (before @ later))))"
    using run_empty_inv[of "before @ later"] by simp
  then have "distinct (map window_key (snd (run empty_engine before))
                @ map window_key (snd (run (fst (run empty_engine before)) later)))"
    by (simp add: run_append)
  then show "\<forall>r\<in>set (snd (run empty_engine before)).
        \<forall>r'\<in>set (snd (run (fst (run empty_engine before)) later)).
          window_key r' \<noteq> window_key r"
    by (auto simp: distinct_append)
qed

theorem at_most_one_result_per_window_witness:
  "map window_key
     (snd (run empty_engine
        [\<lparr>ts = 10000, ingest_ts = 10050, exchange = ''binance'', symbol = ''BTCUSDT'',
           trade_id = ''1'', side = ''buy'', price = 100, qty = 4 / 10\<rparr>,
         \<lparr>ts = 10000, ingest_ts = 10060, exchange = ''binance'', symbol = ''BTCUSDT'',
           trade_id = ''1'', side = ''buy'', price = 100, qty = 4 / 10\<rparr>,
         \<lparr>ts = 25000, ingest_ts = 25050, exchange = ''binance'', symbol = ''BTCUSDT'',
           trade_id = ''2'', side = ''sell'', price = 110, qty = 5 / 10\<rparr>,
         \<lparr>ts = 13000, ingest_ts = 25060, exchange = ''binance'', symbol = ''BTCUSDT'',
           trade_id = ''3'', side = ''buy'', price = 120, qty = 3 / 10\<rparr>,
         \<lparr>ts = 10000, ingest_ts = 25070, exchange = ''binance'', symbol = ''BTCUSDT'',
           trade_id = ''1'', side = ''buy'', price = 100, qty = 4 / 10\<rparr>,
         \<lparr>ts = 45000, ingest_ts = 45050, exchange = ''binance'', symbol = ''BTCUSDT'',
           trade_id = ''4'', side = ''buy'', price = 130, qty = 2 / 10\<rparr>]))
   = [(''binance'', ''BTCUSDT'', 10000), (''binance'', ''BTCUSDT'', 20000)]
   \<and> distinct (map window_key
     (snd (run empty_engine
        [\<lparr>ts = 10000, ingest_ts = 10050, exchange = ''binance'', symbol = ''BTCUSDT'',
           trade_id = ''1'', side = ''buy'', price = 100, qty = 4 / 10\<rparr>,
         \<lparr>ts = 10000, ingest_ts = 10060, exchange = ''binance'', symbol = ''BTCUSDT'',
           trade_id = ''1'', side = ''buy'', price = 100, qty = 4 / 10\<rparr>,
         \<lparr>ts = 25000, ingest_ts = 25050, exchange = ''binance'', symbol = ''BTCUSDT'',
           trade_id = ''2'', side = ''sell'', price = 110, qty = 5 / 10\<rparr>,
         \<lparr>ts = 13000, ingest_ts = 25060, exchange = ''binance'', symbol = ''BTCUSDT'',
           trade_id = ''3'', side = ''buy'', price = 120, qty = 3 / 10\<rparr>,
         \<lparr>ts = 10000, ingest_ts = 25070, exchange = ''binance'', symbol = ''BTCUSDT'',
           trade_id = ''1'', side = ''buy'', price = 100, qty = 4 / 10\<rparr>,
         \<lparr>ts = 45000, ingest_ts = 45050, exchange = ''binance'', symbol = ''BTCUSDT'',
           trade_id = ''4'', side = ''buy'', price = 130, qty = 2 / 10\<rparr>])))"
proof -
  let ?trades = "[\<lparr>ts = 10000, ingest_ts = 10050, exchange = ''binance'', symbol = ''BTCUSDT'',
           trade_id = ''1'', side = ''buy'', price = 100, qty = 4 / 10\<rparr>,
         \<lparr>ts = 10000, ingest_ts = 10060, exchange = ''binance'', symbol = ''BTCUSDT'',
           trade_id = ''1'', side = ''buy'', price = 100, qty = 4 / 10\<rparr>,
         \<lparr>ts = 25000, ingest_ts = 25050, exchange = ''binance'', symbol = ''BTCUSDT'',
           trade_id = ''2'', side = ''sell'', price = 110, qty = 5 / 10\<rparr>,
         \<lparr>ts = 13000, ingest_ts = 25060, exchange = ''binance'', symbol = ''BTCUSDT'',
           trade_id = ''3'', side = ''buy'', price = 120, qty = 3 / 10\<rparr>,
         \<lparr>ts = 10000, ingest_ts = 25070, exchange = ''binance'', symbol = ''BTCUSDT'',
           trade_id = ''1'', side = ''buy'', price = 100, qty = 4 / 10\<rparr>,
         \<lparr>ts = 45000, ingest_ts = 45050, exchange = ''binance'', symbol = ''BTCUSDT'',
           trade_id = ''4'', side = ''buy'', price = 130, qty = (2 / 10 :: real)\<rparr>]"
  have "map window_key (snd (run empty_engine ?trades))
          = [(''binance'', ''BTCUSDT'', 10000), (''binance'', ''BTCUSDT'', 20000)]"
    by code_simp
  moreover have "distinct (map window_key (snd (run empty_engine ?trades)))"
    using at_most_one_result_per_window [of ?trades "[]" "[]"] by (rule conjunct1)
  ultimately show ?thesis by (rule conjI)
qed

subsection \<open>What a result aggregates\<close>




















subsection \<open>Late trades\<close>









section \<open>Defaults of a trade message\<close>

lemma py_upper_ok: "py_upper v = Inr s \<longleftrightarrow> (\<exists>x. v = JStr x \<and> s = upper x)"
  by (cases v) auto

lemma dict_get_string:
  "(\<exists>x. dict_get kvs k (JStr d) = JStr x) \<longleftrightarrow> set_option (map_of kvs k) \<subseteq> range JStr"
  by (cases "map_of kvs k") (auto simp: dict_get_def)

lemma format_trade_ok:
  "format_trade py now trade = Inr r \<longleftrightarrow>
     (\<exists>n x. py_int py (if truthy (dict_get trade ''T'' JNull) then dict_get trade ''T'' JNull
                        else if truthy (dict_get trade ''E'' JNull) then dict_get trade ''E'' JNull
                        else JInt now) = Inr n
          \<and> dict_get trade ''s'' (JStr []) = JStr x
          \<and> r = \<lparr>ts = n, ingest_ts = now, exchange = EXCHANGE, symbol = upper x,
                  trade_id = py_str py (dict_get trade ''t'' (dict_get trade ''a'' (JInt now))),
                  side = (if truthy (dict_get trade ''m'' JNull) then ''sell'' else ''buy''),
                  price = dict_get trade ''p'' (JStr ''0''),
                  qty = dict_get trade ''q'' (JStr ''0'')\<rparr>)"
  unfolding format_trade_def Let_def
  by (auto simp: py_upper_ok split: sum.splits)

lemma receive_first:
  "accumulators (fst (receive empty_engine u) (exchange u, symbol u))
     = [(windowStart (ts u), \<lparr>count = 1, sumQty = qty u, sumPrice = price u\<rparr>)]"
proof -
  have "\<not> windowStart (ts u) + windowSizeMs \<le> ts u - allowedLateness"
    using windowStart_bounds[of "ts u"] by (simp add: allowedLateness_def)
  then show ?thesis
    by (simp add: receive_def ingest_def Let_def empty_engine_def empty_key_def max_opt_def)
qed

text \<open>
  Claim C10, as the code has it. \<^verbatim>\<open>_format_trade\<close> is not total. It returns a record
  exactly when \<^verbatim>\<open>int\<close> accepts the value chosen for the timestamp (\<^verbatim>\<open>T\<close> when that is a true
  value, otherwise \<^verbatim>\<open>E\<close> when that is a true value, otherwise the receipt time) and the
  symbol, when present, is a string; otherwise \<^verbatim>\<open>int\<close> or \<^verbatim>\<open>.upper()\<close> raises. A record it
  returns has the eight fields, and in it an omitted price or quantity is the string \<^verbatim>\<open>0\<close>
  and an omitted symbol the empty string. When the payload is a trade message the record
  is handed to the publisher. When price and quantity are omitted, the detection job reads
  the record as a row with price 0 and quantity 0 (given that the cast reads the string
  \<^verbatim>\<open>0\<close> as zero), and the windowing engine, receiving this row first, accumulates it in
  its window: one trade, quantity 0, price 0.
\<close>

theorem format_trade_defaults:
  "((\<exists>r. format_trade py now trade = Inr r) \<longleftrightarrow>
      (\<exists>n. py_int py (if truthy (dict_get trade ''T'' JNull) then dict_get trade ''T'' JNull
                       else if truthy (dict_get trade ''E'' JNull) then dict_get trade ''E'' JNull
                       else JInt now) = Inr n)
      \<and> set_option (map_of trade ''s'') \<subseteq> range JStr)
   \<and> (\<forall>r. format_trade py now trade = Inr r \<longrightarrow>
         exchange r = ''binance'' \<and> ingest_ts r = now
       \<and> (map_of trade ''p'' = None \<longrightarrow> price r = JStr ''0'')
       \<and> (map_of trade ''q'' = None \<longrightarrow> qty r = JStr ''0'')
       \<and> (map_of trade ''s'' = None \<longrightarrow> symbol r = [])
       \<and> (json_loads py m = Inr payload \<and> unwrap payload = Inr (JObj trade)
            \<and> dict_get trade ''e'' JNull = JStr ''trade'' \<longrightarrow>
          on_message py now None p m = emit [KafkaProduce (topic p) (symbol r) r, KafkaPoll 0] p)
       \<and> (map_of trade ''p'' = None \<and> map_of trade ''q'' = None
            \<and> read_double env (JStr ''0'') = Some 0 \<longrightarrow>
          (\<exists>u. as_trade env r = Some u \<and> ts u = ts r \<and> symbol u = symbol r
              \<and> price u = 0 \<and> qty u = 0
              \<and> accumulators (fst (receive empty_engine u) (exchange u, symbol u))
                  = [(windowStart (ts r), \<lparr>count = 1, sumQty = 0, sumPrice = 0\<rparr>)])))"
proof (intro conjI allI impI)
  show "(\<exists>r. format_trade py now trade = Inr r) \<longleftrightarrow>
      (\<exists>n. py_int py (if truthy (dict_get trade ''T'' JNull) then dict_get trade ''T'' JNull
                       else if truthy (dict_get trade ''E'' JNull) then dict_get trade ''E'' JNull
                       else JInt now) = Inr n)
      \<and> set_option (map_of trade ''s'') \<subseteq> range JStr"
    unfolding format_trade_ok dict_get_string[of trade "''s''" "[]", symmetric] by blast
next
  fix r assume r: "format_trade py now trade = Inr r"
  then obtain n x where n: "dict_get trade ''s'' (JStr []) = JStr x"
    and rr: "r = \<lparr>ts = n, ingest_ts = now, exchange = EXCHANGE, symbol = upper x,
                  trade_id = py_str py (dict_get trade ''t'' (dict_get trade ''a'' (JInt now))),
                  side = (if truthy (dict_get trade ''m'' JNull) then ''sell'' else ''buy''),
                  price = dict_get trade ''p'' (JStr ''0''),
                  qty = dict_get trade ''q'' (JStr ''0'')\<rparr>"
    unfolding format_trade_ok by blast
  show "exchange r = ''binance''" by (simp add: rr EXCHANGE_def)
  show "ingest_ts r = now" by (simp add: rr)
  {
    assume "map_of trade ''p'' = None"
    then show "price r = JStr ''0''" by (simp add: rr dict_get_def)
  }
  {
    assume "map_of trade ''q'' = None"
    then show "qty r = JStr ''0''" by (simp add: rr dict_get_def)
  }
  {
    assume "map_of trade ''s'' = None"
    with n have "x = []" by (simp add: dict_get_def)
    then show "symbol r = []" by (simp add: rr upper_def)
  }
  {
    assume "json_loads py m = Inr payload \<and> unwrap payload = Inr (JObj trade)
            \<and> dict_get trade ''e'' JNull = JStr ''trade''"
    then show "on_message py now None p m
                 = emit [KafkaProduce (topic p) (symbol r) r, KafkaPoll 0] p"
      using process_payload_trade[of payload trade py now None p] r
      by (simp add: on_message_def try_block_def)
  }
  {
    assume a: "map_of trade ''p'' = None \<and> map_of trade ''q'' = None
            \<and> read_double env (JStr ''0'') = Some 0"
    define u :: "real trade_record" where
      "u = \<lparr>ts = ts r, ingest_ts = ingest_ts r, exchange = exchange r, symbol = symbol r,
            trade_id = trade_id r, side = side r, price = 0, qty = 0\<rparr>"
    from a have "price r = JStr ''0''" "qty r = JStr ''0''" by (simp_all add: rr dict_get_def)
    with a have cast: "as_trade env r = Some u" by (simp add: as_trade_def u_def)
    have first: "accumulators (fst (receive empty_engine u) (exchange u, symbol u))
                  = [(windowStart (ts r), \<lparr>count = 1, sumQty = 0, sumPrice = 0\<rparr>)]"
      unfolding receive_first by (simp add: u_def)
    show "\<exists>u. as_trade env r = Some u \<and> ts u = ts r \<and> symbol u = symbol r
              \<and> price u = 0 \<and> qty u = 0
              \<and> accumulators (fst (receive empty_engine u) (exchange u, symbol u))
                  = [(windowStart (ts r), \<lparr>count = 1, sumQty = 0, sumPrice = 0\<rparr>)]"
    proof (intro exI[of _ u] conjI)
      show "as_trade env r = Some u" by (rule cast)
      show "ts u = ts r" "symbol u = symbol r" "price u = 0" "qty u = 0"
        by (simp_all add: u_def)
      show "accumulators (fst (receive empty_engine u) (exchange u, symbol u))
                  = [(windowStart (ts r), \<lparr>count = 1, sumQty = 0, sumPrice = 0\<rparr>)]"
        by (rule first)
    qed
  }
qed

text \<open>
  Two trade messages on which \<^verbatim>\<open>_format_trade\<close> raises: a symbol that is a number has no
  \<^verbatim>\<open>upper\<close>, and \<^verbatim>\<open>int\<close> rejects a timestamp that is not a numeral.
\<close>

theorem format_trade_defaults_counterexample:
  \<open>format_trade \<lparr>json_loads = (\<lambda>m. Inl JSONDecodeError), str_to_int = (\<lambda>s. None), repr = (\<lambda>v. [])\<rparr>
       1700000000000 [(''e'', JStr ''trade''), (''s'', JInt 1)] = Inl AttributeError
   \<and> format_trade \<lparr>json_loads = (\<lambda>m. Inl JSONDecodeError), str_to_int = (\<lambda>s. None), repr = (\<lambda>v. [])\<rparr>
       1700000000000 [(''e'', JStr ''trade''), (''T'', JStr ''soon'')] = Inl ValueError\<close>
  by (simp add: format_trade_def dict_get_def)

theorem format_trade_defaults_witness:
  \<open>on_message \<lparr>json_loads = (\<lambda>m. Inr (JObj [(''e'', JStr ''trade'')])),
                 str_to_int = (\<lambda>s. None), repr = (\<lambda>v. [])\<rparr>
      1700000000000 None (new_producer [''BTCUSDT''] ''trades.raw'' ''wss://stream'')
      ''{"e": "trade"}''
     = emit [KafkaProduce ''trades.raw'' []
               \<lparr>ts = 1700000000000, ingest_ts = 1700000000000, exchange = ''binance'',
                symbol = [], trade_id = ''1700000000000'', side = ''buy'',
                price = JStr ''0'', qty = JStr ''0''\<rparr>,
             KafkaPoll 0]
         (new_producer [''BTCUSDT''] ''trades.raw'' ''wss://stream'')
   \<and> (\<exists>u. as_trade
             \<lparr>read_double = (\<lambda>v. if v = JStr ''0'' then Some 0 else None),
              double_to_string = (\<lambda>d. []), timestamp_to_string = (\<lambda>t. []),
              unix_timestamp = (\<lambda>s. 0)\<rparr>
             \<lparr>ts = 1700000000000, ingest_ts = 1700000000000, exchange = ''binance'',
              symbol = [], trade_id = ''1700000000000'', side = ''buy'',
              price = JStr ''0'', qty = JStr ''0''\<rparr> = Some u
        \<and> price u = 0 \<and> qty u = 0
        \<and> accumulators (fst (receive empty_engine u) (exchange u, symbol u))
            = [(1700000000000, \<lparr>count = 1, sumQty = 0, sumPrice = 0\<rparr>)])\<close>
proof -
  let ?msg = \<open>''{"e": "trade"}''\<close>
  let ?trade = "[(''e'', JStr ''trade'')]"
  let ?py = "\<lparr>json_loads = (\<lambda>m. Inr (JObj ?trade)), str_to_int = (\<lambda>s. None), repr = (\<lambda>v. [])\<rparr>"
  let ?env = "\<lparr>read_double = (\<lambda>v. if v = JStr ''0'' then Some (0::real) else None),
               double_to_string = (\<lambda>d. []), timestamp_to_string = (\<lambda>t. []),
               unix_timestamp = (\<lambda>s. 0)\<rparr>"
  let ?np = "new_producer [''BTCUSDT''] ''trades.raw'' ''wss://stream''"
  let ?r = "\<lparr>ts = 1700000000000, ingest_ts = 1700000000000, exchange = ''binance'',
             symbol = [], trade_id = ''1700000000000'', side = ''buy'',
             price = JStr ''0'', qty = JStr ''0''\<rparr>"
  have h: "json_loads ?py ?msg = Inr (JObj ?trade) \<and> unwrap (JObj ?trade) = Inr (JObj ?trade)
             \<and> dict_get ?trade ''e'' JNull = JStr ''trade''"
    by (simp add: unwrap_def dict_get_def)
  have d: "map_of ?trade ''p'' = None \<and> map_of ?trade ''q'' = None
             \<and> read_double ?env (JStr ''0'') = Some 0"
    by simp
  have r: "format_trade ?py 1700000000000 ?trade = Inr ?r"
    by (simp add: format_trade_def dict_get_def EXCHANGE_def upper_def str_of_int_def
          str_of_nat_digit str_of_nat_more)
  have w: "windowStart (ts ?r) = 1700000000000"
    by (simp add: windowStart_def windowSizeMs_def)
  note th = format_trade_defaults[of ?py 1700000000000 ?trade ?msg "JObj ?trade" ?np ?env]
  note at_r = mp[OF spec[OF conjunct2[OF th], of ?r] r]
  from at_r have sent: "json_loads ?py ?msg = Inr (JObj ?trade) \<and> unwrap (JObj ?trade) = Inr (JObj ?trade)
            \<and> dict_get ?trade ''e'' JNull = JStr ''trade'' \<longrightarrow>
          on_message ?py 1700000000000 None ?np ?msg
            = emit [KafkaProduce (topic ?np) (symbol ?r) ?r, KafkaPoll 0] ?np"
    by (elim conjE)
  from at_r have agg: "map_of ?trade ''p'' = None \<and> map_of ?trade ''q'' = None
            \<and> read_double ?env (JStr ''0'') = Some 0 \<longrightarrow>
          (\<exists>u. as_trade ?env ?r = Some u \<and> ts u = ts ?r \<and> symbol u = symbol ?r
              \<and> price u = 0 \<and> qty u = 0
              \<and> accumulators (fst (receive empty_engine u) (exchange u, symbol u))
                  = [(windowStart (ts ?r), \<lparr>count = 1, sumQty = 0, sumPrice = 0\<rparr>)])"
    by (elim conjE)
  from mp[OF sent h] have s1: "on_message ?py 1700000000000 None ?np ?msg
            = emit [KafkaProduce ''trades.raw'' [] ?r, KafkaPoll 0] ?np"
    by (simp add: new_producer_def)
  from mp[OF agg d] obtain u where u: "as_trade ?env ?r = Some u" "price u = 0" "qty u = 0"
    "accumulators (fst (receive empty_engine u) (exchange u, symbol u))
       = [(windowStart (ts ?r), \<lparr>count = 1, sumQty = 0, sumPrice = 0\<rparr>)]"
    by blast
  from u(4) have u4: "accumulators (fst (receive empty_engine u) (exchange u, symbol u))
       = [(1700000000000, \<lparr>count = 1, sumQty = 0, sumPrice = 0\<rparr>)]"
    unfolding w .
  from s1 u(1,2,3) u4 show ?thesis by blast
qed

end
